theory Spec2Isabelle
  imports Complex_Main
begin

section \<open>Python values and the library functions the bridge calls\<close>

text \<open>
  The bridge and the tool server pass JSON payloads through unchanged. A Python string is
  modelled as a list of code points below 256 (one \<^typ>\<open>char\<close> each); numbers are the
  integers. A Python \<open>dict\<close> keeps insertion order, so it is an association list
  whose keys are distinct.
\<close>

datatype json =
    JNull
  | JBool bool
  | JInt int
  | JStr string
  | JList "json list"
  | JDict "(string \<times> json) list"

text \<open>The exception classes that the code raises or tells apart, each with its message.\<close>

datatype exn =
    ClientError string
  | TimeoutError string
  | ValueError string
  | AttributeError string
  | TypeError string
  | IndexError string
  | NotImplementedError string
  | Exception string

fun str_exn :: "exn \<Rightarrow> string" where
  "str_exn (ClientError m) = m"
| "str_exn (TimeoutError m) = m"
| "str_exn (ValueError m) = m"
| "str_exn (AttributeError m) = m"
| "str_exn (TypeError m) = m"
| "str_exn (IndexError m) = m"
| "str_exn (NotImplementedError m) = m"
| "str_exn (Exception m) = m"

subsection \<open>Strings\<close>

definition rstrip :: "char \<Rightarrow> string \<Rightarrow> string" where
  "rstrip c s = rev (dropWhile (\<lambda>x. x = c) (rev s))"

definition lstrip :: "char \<Rightarrow> string \<Rightarrow> string" where
  "lstrip c s = dropWhile (\<lambda>x. x = c) s"

fun join :: "string \<Rightarrow> string list \<Rightarrow> string" where
  "join sep [] = []"
| "join sep [x] = x"
| "join sep (x # y # ys) = x @ sep @ join sep (y # ys)"

definition code_point :: "char \<Rightarrow> nat" where
  "code_point c = of_char c"

definition is_digit :: "char \<Rightarrow> bool" where
  "is_digit c = (48 \<le> code_point c \<and> code_point c \<le> 57)"

definition is_ascii_alpha :: "char \<Rightarrow> bool" where
  "is_ascii_alpha c =
     ((65 \<le> code_point c \<and> code_point c \<le> 90) \<or> (97 \<le> code_point c \<and> code_point c \<le> 122))"

definition digit_char :: "nat \<Rightarrow> char" where
  "digit_char d = ''0123456789'' ! (d mod 10)"

fun str_of_nat :: "nat \<Rightarrow> string" where
  "str_of_nat n = (if n < 10 then [digit_char n] else str_of_nat (n div 10) @ [digit_char (n mod 10)])"

declare str_of_nat.simps [simp del]

definition str_of_int :: "int \<Rightarrow> string" where
  "str_of_int i = (if i < 0 then CHR ''-'' # str_of_nat (nat (- i)) else str_of_nat (nat i))"

definition hex_upper :: "nat \<Rightarrow> char" where
  "hex_upper d = ''0123456789ABCDEF'' ! (d mod 16)"

definition hex_lower :: "nat \<Rightarrow> char" where
  "hex_lower d = ''0123456789abcdef'' ! (d mod 16)"

text \<open>\<open>str.lower()\<close> on code points below 256: A-Z and the accented capitals move by 32.\<close>

definition lower_char :: "char \<Rightarrow> char" where
  "lower_char c =
     (let n = code_point c
      in if (65 \<le> n \<and> n \<le> 90) \<or> (192 \<le> n \<and> n \<le> 222 \<and> n \<noteq> 215) then char_of (n + 32) else c)"

definition lower :: "string \<Rightarrow> string" where
  "lower s = map lower_char s"

subsection \<open>\<open>repr\<close> and \<open>str\<close>\<close>

definition is_printable :: "char \<Rightarrow> bool" where
  "is_printable c =
     (let n = code_point c in (32 \<le> n \<and> n \<le> 126) \<or> (161 \<le> n \<and> n \<noteq> 173))"

definition repr_char :: "char \<Rightarrow> char \<Rightarrow> string" where
  "repr_char q c =
     (if c = q \<or> c = CHR 0x5C then [CHR 0x5C, c]
      else if c = CHR 0x0A then [CHR 0x5C, CHR ''n'']
      else if c = CHR 0x0D then [CHR 0x5C, CHR ''r'']
      else if c = CHR 0x09 then [CHR 0x5C, CHR ''t'']
      else if is_printable c then [c]
      else [CHR 0x5C, CHR ''x'', hex_lower (code_point c div 16), hex_lower (code_point c mod 16)])"

definition repr_str :: "string \<Rightarrow> string" where
  "repr_str s =
     (let q = (if CHR 0x27 \<in> set s \<and> CHR 0x22 \<notin> set s then CHR 0x22 else CHR 0x27)
      in [q] @ concat (map (repr_char q) s) @ [q])"

fun repr :: "json \<Rightarrow> string" where
  "repr JNull = ''None''"
| "repr (JBool b) = (if b then ''True'' else ''False'')"
| "repr (JInt i) = str_of_int i"
| "repr (JStr s) = repr_str s"
| "repr (JList xs) = ''['' @ join '', '' (map repr xs) @ '']''"
| "repr (JDict kvs) =
     ''{'' @ join '', '' (map (\<lambda>kv. repr_str (fst kv) @ '': '' @ repr (snd kv)) kvs) @ ''}''"

definition str :: "json \<Rightarrow> string" where
  "str v = (case v of JStr s \<Rightarrow> s | _ \<Rightarrow> repr v)"

definition type_name :: "json \<Rightarrow> string" where
  "type_name v =
     (case v of JNull \<Rightarrow> ''NoneType'' | JBool _ \<Rightarrow> ''bool'' | JInt _ \<Rightarrow> ''int''
      | JStr _ \<Rightarrow> ''str'' | JList _ \<Rightarrow> ''list'' | JDict _ \<Rightarrow> ''dict'')"

text \<open>Truth value of a payload, as \<open>not x\<close> and \<open>if x\<close> test it.\<close>

definition truthy :: "json \<Rightarrow> bool" where
  "truthy v =
     (case v of JNull \<Rightarrow> False | JBool b \<Rightarrow> b | JInt i \<Rightarrow> i \<noteq> 0
      | JStr s \<Rightarrow> s \<noteq> [] | JList xs \<Rightarrow> xs \<noteq> [] | JDict kvs \<Rightarrow> kvs \<noteq> [])"

subsection \<open>\<open>int()\<close> of a string and of a float\<close>

definition is_space :: "char \<Rightarrow> bool" where
  "is_space c =
     (let n = code_point c in (9 \<le> n \<and> n \<le> 13) \<or> (28 \<le> n \<and> n \<le> 32) \<or> n = 133 \<or> n = 160)"

definition strip :: "string \<Rightarrow> string" where
  "strip s = rev (dropWhile is_space (rev (dropWhile is_space s)))"

text \<open>
  Decimal digits, where a single underscore may stand between two digits. The flag says
  whether the character before was a digit.
\<close>

fun digits_value :: "string \<Rightarrow> bool \<Rightarrow> nat \<Rightarrow> nat option" where
  "digits_value [] prev acc = (if prev then Some acc else None)"
| "digits_value (c # cs) prev acc =
     (if is_digit c then digits_value cs True (acc * 10 + (code_point c - 48))
      else if c = CHR ''_'' \<and> prev then digits_value cs False acc
      else None)"

definition int_of_str :: "string \<Rightarrow> exn + int" where
  "int_of_str s =
     (let t = strip s;
          neg = (case t of [] \<Rightarrow> False | c # _ \<Rightarrow> c = CHR ''-'');
          body = (case t of [] \<Rightarrow> [] | c # cs \<Rightarrow> if c = CHR ''-'' \<or> c = CHR ''+'' then cs else t)
      in case digits_value body False 0 of
           None \<Rightarrow> Inl (ValueError (''invalid literal for int() with base 10: '' @ repr_str s))
         | Some n \<Rightarrow> Inr (if neg then - int n else int n))"

text \<open>\<open>int(x)\<close> of a float truncates towards zero. Delays are exact rationals here.\<close>

definition int_of_float :: "rat \<Rightarrow> int" where
  "int_of_float r = (if 0 \<le> r then \<lfloor>r\<rfloor> else \<lceil>r\<rceil>)"

subsection \<open>\<open>urllib.parse.urlencode\<close>\<close>

definition always_safe :: "char \<Rightarrow> bool" where
  "always_safe c = (is_ascii_alpha c \<or> is_digit c \<or> c \<in> set ''_.-~'')"

definition utf8_bytes :: "char \<Rightarrow> nat list" where
  "utf8_bytes c = (let n = code_point c in if n < 128 then [n] else [192 + n div 64, 128 + n mod 64])"

definition percent_byte :: "nat \<Rightarrow> string" where
  "percent_byte n = [CHR ''%'', hex_upper (n div 16), hex_upper (n mod 16)]"

definition quote_plus_char :: "char \<Rightarrow> string" where
  "quote_plus_char c =
     (if always_safe c then [c]
      else if c = CHR '' '' then ''+''
      else concat (map percent_byte (utf8_bytes c)))"

definition quote_plus :: "string \<Rightarrow> string" where
  "quote_plus s = concat (map quote_plus_char s)"

definition urlencode :: "(string \<times> json) list \<Rightarrow> string" where
  "urlencode query = join ''&'' (map (\<lambda>kv. quote_plus (fst kv) @ ''='' @ quote_plus (str (snd kv))) query)"

subsection \<open>Python dictionaries with insertion order\<close>

fun dict_set :: "(string \<times> json) list \<Rightarrow> string \<Rightarrow> json \<Rightarrow> (string \<times> json) list" where
  "dict_set [] k v = [(k, v)]"
| "dict_set ((k', v') # kvs) k v = (if k' = k then (k, v) # kvs else (k', v') # dict_set kvs k v)"

definition dict_pop :: "(string \<times> json) list \<Rightarrow> string \<Rightarrow> (string \<times> json) list" where
  "dict_pop kvs k = filter (\<lambda>kv. fst kv \<noteq> k) kvs"

definition dict_get :: "(string \<times> json) list \<Rightarrow> string \<Rightarrow> json" where
  "dict_get kvs k = (case map_of kvs k of None \<Rightarrow> JNull | Some v \<Rightarrow> v)"

section \<open>The API bridge (bridge.py)\<close>

record bridge =
  base_url :: string
  max_retries :: int
  retry_delay :: rat

definition EMBLEBIBridge :: bridge where
  "EMBLEBIBridge =
     \<lparr>base_url = ''https://www.ebi.ac.uk/proteins/api'', max_retries = 3, retry_delay = 1\<rparr>"

text \<open>
  What one GET observes. \<open>await response.json()\<close> and \<open>await response.text()\<close> can
  themselves raise, so each is a result; the only header the code reads is
  \<open>Retry-After\<close>.
\<close>

record response =
  status :: int
  retry_after :: "string option"
  body_text :: "exn + string"
  body_json :: "exn + json"

text \<open>
  The remote service: the outcome of the \<open>n\<close>-th GET of a run (counted from 0) to a URL
  is a response or an exception raised by the HTTP client.
\<close>

type_synonym server = "nat \<Rightarrow> string \<Rightarrow> exn + response"

text \<open>The effects of a run: the URLs requested and the sleeps taken, oldest first.\<close>

record io =
  requests :: "string list"
  sleeps :: "rat list"

definition io0 :: io where
  "io0 = \<lparr>requests = [], sleeps = []\<rparr>"

definition session_get :: "server \<Rightarrow> string \<Rightarrow> io \<Rightarrow> (exn + response) \<times> io" where
  "session_get srv url s = (srv (length (requests s)) url, s\<lparr>requests := requests s @ [url]\<rparr>)"

definition asyncio_sleep :: "rat \<Rightarrow> io \<Rightarrow> io" where
  "asyncio_sleep d s = s\<lparr>sleeps := sleeps s @ [d]\<rparr>"

text \<open>How one pass through the body of the retry loop ends.\<close>

datatype 'a flow = Return 'a | Raise exn | Continue

text \<open>\<open>int(response.headers.get('Retry-After', self.retry_delay * (attempt + 1)))\<close>.\<close>

definition retry_after_seconds :: "bridge \<Rightarrow> nat \<Rightarrow> response \<Rightarrow> exn + int" where
  "retry_after_seconds b attempt r =
     (case retry_after r of
        None \<Rightarrow> Inr (int_of_float (retry_delay b * of_nat (attempt + 1)))
      | Some h \<Rightarrow> int_of_str h)"

text \<open>The \<open>async with\<close> block of one attempt (lines 58-80), given what the GET produced.\<close>

definition attempt_body :: "bridge \<Rightarrow> nat \<Rightarrow> response \<Rightarrow> io \<Rightarrow> json flow \<times> io" where
  "attempt_body b attempt r s =
     (if status r = 200 then
        (case body_json r of Inl e \<Rightarrow> (Raise e, s) | Inr j \<Rightarrow> (Return j, s))
      else if status r = 404 then
        (case body_text r of
           Inl e \<Rightarrow> (Raise e, s)
         | Inr error_text \<Rightarrow> (Raise (ValueError (''Resource not found (404): '' @ error_text)), s))
      else if status r = 429 then
        (case retry_after_seconds b attempt r of
           Inl e \<Rightarrow> (Raise e, s)
         | Inr seconds \<Rightarrow> (Continue, asyncio_sleep (of_int seconds) s))
      else if status r \<ge> 500 then
        (case body_text r of
           Inl e \<Rightarrow> (Raise e, s)
         | Inr error_text \<Rightarrow>
             if int attempt < max_retries b - 1
             then (Continue, asyncio_sleep (retry_delay b * of_nat (attempt + 1)) s)
             else (Raise (Exception (''Server error '' @ str_of_int (status r) @ '': '' @ error_text)), s))
      else
        (case body_text r of
           Inl e \<Rightarrow> (Raise e, s)
         | Inr error_text \<Rightarrow>
             (Raise (Exception (''API request failed with status '' @ str_of_int (status r) @ '': ''
                                @ error_text)), s)))"

text \<open>The \<open>except\<close> clauses of one attempt (lines 82-99), tried in the source's order.\<close>

definition attempt_except :: "bridge \<Rightarrow> nat \<Rightarrow> exn \<Rightarrow> io \<Rightarrow> json flow \<times> io" where
  "attempt_except b attempt e s =
     (case e of
        ClientError m \<Rightarrow>
          if int attempt < max_retries b - 1
          then (Continue, asyncio_sleep (retry_delay b * of_nat (attempt + 1)) s)
          else (Raise e, s)
      | TimeoutError m \<Rightarrow>
          if int attempt < max_retries b - 1
          then (Continue, asyncio_sleep (retry_delay b * of_nat (attempt + 1)) s)
          else (Raise e, s)
      | _ \<Rightarrow> (Raise e, s))"

definition attempt_try :: "server \<Rightarrow> bridge \<Rightarrow> string \<Rightarrow> nat \<Rightarrow> io \<Rightarrow> json flow \<times> io" where
  "attempt_try srv b url attempt s =
     (case session_get srv url s of
        (Inl e, s1) \<Rightarrow> attempt_except b attempt e s1
      | (Inr r, s1) \<Rightarrow>
          (case attempt_body b attempt r s1 of
             (Raise e, s2) \<Rightarrow> attempt_except b attempt e s2
           | other \<Rightarrow> other))"

text \<open>\<open>for attempt in range(self.max_retries)\<close>, and the \<open>raise\<close> after the loop.\<close>

function request_loop :: "server \<Rightarrow> bridge \<Rightarrow> string \<Rightarrow> nat \<Rightarrow> io \<Rightarrow> (exn + json) \<times> io" where
  "request_loop srv b url attempt s =
     (if int attempt < max_retries b then
        (case attempt_try srv b url attempt s of
           (Return j, s1) \<Rightarrow> (Inr j, s1)
         | (Raise e, s1) \<Rightarrow> (Inl e, s1)
         | (Continue, s1) \<Rightarrow> request_loop srv b url (attempt + 1) s1)
      else
        (Inl (Exception (''Failed to complete request after '' @ str_of_int (max_retries b)
                         @ '' attempts'')), s))"
  by pat_completeness auto
termination
  by (relation "measure (\<lambda>(srv, b, url, attempt, s). nat (max_retries b - int attempt))") auto

declare request_loop.simps [simp del]

definition build_url :: "bridge \<Rightarrow> string \<Rightarrow> (string \<times> json) list option \<Rightarrow> string" where
  "build_url b endpoint params =
     (let url = rstrip CHR ''/'' (base_url b) @ ''/'' @ lstrip CHR ''/'' endpoint
      in case params of
           None \<Rightarrow> url
         | Some ps \<Rightarrow>
             if ps \<noteq> [] then url @ ''?'' @ urlencode (filter (\<lambda>kv. snd kv \<noteq> JNull) ps) else url)"

definition make_request ::
  "server \<Rightarrow> bridge \<Rightarrow> string \<Rightarrow> (string \<times> json) list option \<Rightarrow> io \<Rightarrow> (exn + json) \<times> io" where
  "make_request srv b endpoint params s = request_loop srv b (build_url b endpoint params) 0 s"


subsection \<open>Composite operations\<close>

definition organism_map :: "(string \<times> string) list" where
  "organism_map =
     [(''human'', ''9606''), (''mouse'', ''10090''), (''rat'', ''10116''),
      (''yeast'', ''559292''), (''e.coli'', ''83333''), (''drosophila'', ''7227'')]"

text \<open>A method call on a payload of the wrong type raises \<open>AttributeError\<close>.\<close>

definition no_attribute :: "json \<Rightarrow> string \<Rightarrow> exn" where
  "no_attribute v a =
     AttributeError ([CHR 0x27] @ type_name v @ [CHR 0x27] @ '' object has no attribute ''
                     @ [CHR 0x27] @ a @ [CHR 0x27])"

definition str_lower :: "json \<Rightarrow> exn + string" where
  "str_lower v = (case v of JStr s \<Rightarrow> Inr (lower s) | _ \<Rightarrow> Inl (no_attribute v ''lower''))"

text \<open>The query of the gene-based search (lines 124-133).\<close>

definition find_protein_accession_params :: "json \<Rightarrow> json \<Rightarrow> exn + (string \<times> json) list" where
  "find_protein_accession_params gene_name organism =
     (let params = [(''offset'', JInt 0), (''size'', JInt 10)]
      in case str_lower organism of
           Inl e \<Rightarrow> Inl e
         | Inr lowered \<Rightarrow>
             (let params' =
                    (case map_of organism_map lowered of
                       Some taxid \<Rightarrow> dict_set params ''taxid'' (JStr taxid)
                     | None \<Rightarrow> dict_set params ''organism'' organism)
              in Inr (dict_set params' ''gene'' gene_name)))"

definition find_protein_accession :: "server \<Rightarrow> bridge \<Rightarrow> json \<Rightarrow> json \<Rightarrow> io \<Rightarrow> (exn + json) \<times> io" where
  "find_protein_accession srv b gene_name organism s =
     (case find_protein_accession_params gene_name organism of
        Inl e \<Rightarrow> (Inl e, s)
      | Inr params \<Rightarrow>
          (case make_request srv b ''proteins'' (Some params) s of
             (Inr result, s1) \<Rightarrow> (Inr result, s1)
           | (Inl e, s1) \<Rightarrow>
               make_request srv b ''proteins''
                 (Some (dict_set (dict_pop params ''gene'') ''protein'' gene_name)) s1))"

definition get_features_by_accession :: "server \<Rightarrow> bridge \<Rightarrow> json \<Rightarrow> io \<Rightarrow> (exn + json) \<times> io" where
  "get_features_by_accession srv b accession = make_request srv b (''features/'' @ str accession) None"

definition get_protein_interactions :: "server \<Rightarrow> bridge \<Rightarrow> json \<Rightarrow> io \<Rightarrow> (exn + json) \<times> io" where
  "get_protein_interactions srv b accession =
     make_request srv b (''proteins/interaction/'' @ str accession) None"

text \<open>\<open>not search_result or len(search_result) == 0\<close>: \<open>len\<close> of a number raises.\<close>

definition no_result :: "json \<Rightarrow> exn + bool" where
  "no_result search_result =
     (if \<not> truthy search_result then Inr True
      else case search_result of
             JStr x \<Rightarrow> Inr (length x = 0)
           | JList xs \<Rightarrow> Inr (length xs = 0)
           | JDict kvs \<Rightarrow> Inr (length kvs = 0)
           | _ \<Rightarrow> Inl (TypeError (''object of type '' @ [CHR 0x27] @ type_name search_result
                                  @ [CHR 0x27] @ '' has no len()'')))"

text \<open>\<open>search_result[0] if isinstance(search_result, list) else search_result\<close>.\<close>

definition first_result :: "json \<Rightarrow> exn + json" where
  "first_result search_result =
     (case search_result of
        JList [] \<Rightarrow> Inl (IndexError ''list index out of range'')
      | JList (x # _) \<Rightarrow> Inr x
      | _ \<Rightarrow> Inr search_result)"

text \<open>\<open>protein.get("accession")\<close>.\<close>

definition get_accession :: "json \<Rightarrow> exn + json" where
  "get_accession protein =
     (case protein of JDict kvs \<Rightarrow> Inr (dict_get kvs ''accession'') | _ \<Rightarrow> Inl (no_attribute protein ''get''))"

text \<open>The two inner \<open>try\<close> blocks (lines 177-187): a failure becomes a field of the summary.\<close>

definition add_features :: "server \<Rightarrow> bridge \<Rightarrow> json \<Rightarrow> (string \<times> json) list \<Rightarrow> io \<Rightarrow> (string \<times> json) list \<times> io" where
  "add_features srv b accession summary s =
     (case get_features_by_accession srv b accession s of
        (Inr features, s1) \<Rightarrow> (dict_set summary ''features'' features, s1)
      | (Inl e, s1) \<Rightarrow> (dict_set summary ''features_error'' (JStr (str_exn e)), s1))"

definition add_interactions :: "server \<Rightarrow> bridge \<Rightarrow> json \<Rightarrow> (string \<times> json) list \<Rightarrow> io \<Rightarrow> (string \<times> json) list \<times> io" where
  "add_interactions srv b accession summary s =
     (case get_protein_interactions srv b accession s of
        (Inr interactions, s1) \<Rightarrow> (dict_set summary ''interactions'' interactions, s1)
      | (Inl e, s1) \<Rightarrow> (dict_set summary ''interactions_error'' (JStr (str_exn e)), s1))"

text \<open>The body of the outer \<open>try\<close> (lines 155-189).\<close>

definition get_protein_summary_try :: "server \<Rightarrow> bridge \<Rightarrow> json \<Rightarrow> json \<Rightarrow> io \<Rightarrow> (exn + json) \<times> io" where
  "get_protein_summary_try srv b gene_name organism s =
     (case find_protein_accession srv b gene_name organism s of
        (Inl e, s1) \<Rightarrow> (Inl e, s1)
      | (Inr search_result, s1) \<Rightarrow>
          (case no_result search_result of
             Inl e \<Rightarrow> (Inl e, s1)
           | Inr True \<Rightarrow>
               (Inr (JDict [(''error'', JStr (''No protein found for '' @ str gene_name @ '' in ''
                                                @ str organism))]), s1)
           | Inr False \<Rightarrow>
               (case first_result search_result of
                  Inl e \<Rightarrow> (Inl e, s1)
                | Inr protein \<Rightarrow>
                    (case get_accession protein of
                       Inl e \<Rightarrow> (Inl e, s1)
                     | Inr accession \<Rightarrow>
                         if \<not> truthy accession
                         then (Inr (JDict [(''error'', JStr ''No accession found in search results'')]), s1)
                         else
                           (let summary = [(''gene_name'', gene_name), (''organism'', organism),
                                           (''accession'', accession), (''basic_info'', protein)]
                            in case add_features srv b accession summary s1 of
                                 (summary1, s2) \<Rightarrow>
                                   (case add_interactions srv b accession summary1 s2 of
                                      (summary2, s3) \<Rightarrow> (Inr (JDict summary2), s3)))))))"

definition get_protein_summary :: "server \<Rightarrow> bridge \<Rightarrow> json \<Rightarrow> json \<Rightarrow> io \<Rightarrow> (exn + json) \<times> io" where
  "get_protein_summary srv b gene_name organism s =
     (case get_protein_summary_try srv b gene_name organism s of
        (Inl e, s1) \<Rightarrow>
          (Inr (JDict [(''error'', JStr (''Failed to get protein summary: '' @ str_exn e))]), s1)
      | (Inr result, s1) \<Rightarrow> (Inr result, s1))"

subsection \<open>Endpoint methods called by the tools\<close>

text \<open>\<open>params.update(kwargs)\<close>.\<close>

definition dict_update :: "(string \<times> json) list \<Rightarrow> (string \<times> json) list \<Rightarrow> (string \<times> json) list" where
  "dict_update d kwargs = foldl (\<lambda>acc kv. dict_set acc (fst kv) (snd kv)) d kwargs"

definition search_proteins ::
  "server \<Rightarrow> bridge \<Rightarrow> json \<Rightarrow> json \<Rightarrow> json \<Rightarrow> (string \<times> json) list \<Rightarrow> io \<Rightarrow> (exn + json) \<times> io" where
  "search_proteins srv b query size' offset kwargs =
     (let params = [(''offset'', offset), (''size'', size')];
          params' = (if kwargs \<noteq> [] then dict_update params kwargs else dict_set params ''protein'' query)
      in make_request srv b ''proteins'' (Some params'))"

definition get_protein_by_accession :: "server \<Rightarrow> bridge \<Rightarrow> json \<Rightarrow> io \<Rightarrow> (exn + json) \<times> io" where
  "get_protein_by_accession srv b accession = make_request srv b (''proteins/'' @ str accession) None"

definition get_protein_isoforms :: "server \<Rightarrow> bridge \<Rightarrow> json \<Rightarrow> io \<Rightarrow> (exn + json) \<times> io" where
  "get_protein_isoforms srv b accession = make_request srv b (''proteins/'' @ str accession @ ''/isoforms'') None"

definition get_variations_by_accession :: "server \<Rightarrow> bridge \<Rightarrow> json \<Rightarrow> io \<Rightarrow> (exn + json) \<times> io" where
  "get_variations_by_accession srv b accession = make_request srv b (''variation/'' @ str accession) None"

definition get_variations_by_dbsnp :: "server \<Rightarrow> bridge \<Rightarrow> json \<Rightarrow> io \<Rightarrow> (exn + json) \<times> io" where
  "get_variations_by_dbsnp srv b dbid = make_request srv b (''variation/dbsnp/'' @ str dbid) None"

definition get_antigen_by_accession :: "server \<Rightarrow> bridge \<Rightarrow> json \<Rightarrow> io \<Rightarrow> (exn + json) \<times> io" where
  "get_antigen_by_accession srv b accession = make_request srv b (''antigen/'' @ str accession) None"

definition get_epitope_by_accession :: "server \<Rightarrow> bridge \<Rightarrow> json \<Rightarrow> io \<Rightarrow> (exn + json) \<times> io" where
  "get_epitope_by_accession srv b accession = make_request srv b (''epitope/'' @ str accession) None"

definition get_proteomics_by_accession :: "server \<Rightarrow> bridge \<Rightarrow> json \<Rightarrow> io \<Rightarrow> (exn + json) \<times> io" where
  "get_proteomics_by_accession srv b accession = make_request srv b (''proteomics/'' @ str accession) None"

definition get_proteome_by_upid :: "server \<Rightarrow> bridge \<Rightarrow> json \<Rightarrow> io \<Rightarrow> (exn + json) \<times> io" where
  "get_proteome_by_upid srv b upid = make_request srv b (''proteomes/'' @ str upid) None"

definition get_proteome_proteins :: "server \<Rightarrow> bridge \<Rightarrow> json \<Rightarrow> io \<Rightarrow> (exn + json) \<times> io" where
  "get_proteome_proteins srv b upid = make_request srv b (''proteomes/proteins/'' @ str upid) None"

definition get_taxonomy_by_id :: "server \<Rightarrow> bridge \<Rightarrow> json \<Rightarrow> io \<Rightarrow> (exn + json) \<times> io" where
  "get_taxonomy_by_id srv b tax_id = make_request srv b (''taxonomy/id/'' @ str tax_id) None"

definition get_taxonomy_children :: "server \<Rightarrow> bridge \<Rightarrow> json \<Rightarrow> io \<Rightarrow> (exn + json) \<times> io" where
  "get_taxonomy_children srv b tax_id = make_request srv b (''taxonomy/id/'' @ str tax_id @ ''/children'') None"

definition get_taxonomy_lineage :: "server \<Rightarrow> bridge \<Rightarrow> json \<Rightarrow> io \<Rightarrow> (exn + json) \<times> io" where
  "get_taxonomy_lineage srv b tax_id = make_request srv b (''taxonomy/lineage/'' @ str tax_id) None"

definition get_coordinates_by_accession :: "server \<Rightarrow> bridge \<Rightarrow> json \<Rightarrow> io \<Rightarrow> (exn + json) \<times> io" where
  "get_coordinates_by_accession srv b accession = make_request srv b (''coordinates/'' @ str accession) None"

definition get_uniparc_by_upi :: "server \<Rightarrow> bridge \<Rightarrow> json \<Rightarrow> io \<Rightarrow> (exn + json) \<times> io" where
  "get_uniparc_by_upi srv b upi = make_request srv b (''uniparc/upi/'' @ str upi) None"

definition get_uniparc_by_accession :: "server \<Rightarrow> bridge \<Rightarrow> json \<Rightarrow> io \<Rightarrow> (exn + json) \<times> io" where
  "get_uniparc_by_accession srv b accession = make_request srv b (''uniparc/accession/'' @ str accession) None"

definition search_features :: "server \<Rightarrow> bridge \<Rightarrow> json \<Rightarrow> json \<Rightarrow> json \<Rightarrow> io \<Rightarrow> (exn + json) \<times> io" where
  "search_features srv b query size' offset =
     make_request srv b ''features'' (Some [(''offset'', offset), (''size'', size'), (''accession'', query)])"

definition search_variations :: "server \<Rightarrow> bridge \<Rightarrow> json \<Rightarrow> json \<Rightarrow> json \<Rightarrow> io \<Rightarrow> (exn + json) \<times> io" where
  "search_variations srv b query size' offset =
     make_request srv b ''variation'' (Some [(''offset'', offset), (''size'', size'), (''accession'', query)])"

definition search_antigens :: "server \<Rightarrow> bridge \<Rightarrow> json \<Rightarrow> json \<Rightarrow> json \<Rightarrow> io \<Rightarrow> (exn + json) \<times> io" where
  "search_antigens srv b query size' offset =
     make_request srv b ''antigen'' (Some [(''offset'', offset), (''size'', size'), (''accession'', query)])"

definition search_epitopes :: "server \<Rightarrow> bridge \<Rightarrow> json \<Rightarrow> json \<Rightarrow> json \<Rightarrow> io \<Rightarrow> (exn + json) \<times> io" where
  "search_epitopes srv b query size' offset =
     make_request srv b ''epitope'' (Some [(''offset'', offset), (''size'', size'), (''query'', query)])"

definition search_proteomics :: "server \<Rightarrow> bridge \<Rightarrow> json \<Rightarrow> json \<Rightarrow> json \<Rightarrow> io \<Rightarrow> (exn + json) \<times> io" where
  "search_proteomics srv b query size' offset =
     make_request srv b ''proteomics'' (Some [(''offset'', offset), (''size'', size'), (''query'', query)])"

definition search_proteomes :: "server \<Rightarrow> bridge \<Rightarrow> json \<Rightarrow> json \<Rightarrow> json \<Rightarrow> io \<Rightarrow> (exn + json) \<times> io" where
  "search_proteomes srv b query size' offset =
     make_request srv b ''proteomes'' (Some [(''offset'', offset), (''size'', size'), (''query'', query)])"

definition search_coordinates :: "server \<Rightarrow> bridge \<Rightarrow> json \<Rightarrow> json \<Rightarrow> json \<Rightarrow> io \<Rightarrow> (exn + json) \<times> io" where
  "search_coordinates srv b query size' offset =
     make_request srv b ''coordinates'' (Some [(''offset'', offset), (''size'', size'), (''query'', query)])"

definition search_uniparc :: "server \<Rightarrow> bridge \<Rightarrow> json \<Rightarrow> json \<Rightarrow> json \<Rightarrow> io \<Rightarrow> (exn + json) \<times> io" where
  "search_uniparc srv b query size' offset =
     make_request srv b ''uniparc'' (Some [(''offset'', offset), (''size'', size'), (''query'', query)])"

definition get_features_by_type :: "server \<Rightarrow> bridge \<Rightarrow> json \<Rightarrow> json \<Rightarrow> json \<Rightarrow> io \<Rightarrow> (exn + json) \<times> io" where
  "get_features_by_type srv b feature_type size' offset =
     make_request srv b (''features/type/'' @ str feature_type) (Some [(''offset'', offset), (''size'', size')])"

definition get_proteomics_species :: "server \<Rightarrow> bridge \<Rightarrow> io \<Rightarrow> (exn + json) \<times> io" where
  "get_proteomics_species srv b = make_request srv b ''proteomics/species'' None"

section \<open>The tool server (mcp_server.py)\<close>

subsection \<open>\<open>json.dumps(result, indent=2)\<close>\<close>

definition json_escape_char :: "char \<Rightarrow> string" where
  "json_escape_char c =
     (if c = CHR 0x22 then [CHR 0x5C, CHR 0x22]
      else if c = CHR 0x5C then [CHR 0x5C, CHR 0x5C]
      else if c = CHR 0x0A then [CHR 0x5C, CHR ''n'']
      else if c = CHR 0x0D then [CHR 0x5C, CHR ''r'']
      else if c = CHR 0x09 then [CHR 0x5C, CHR ''t'']
      else if c = CHR 0x08 then [CHR 0x5C, CHR ''b'']
      else if c = CHR 0x0C then [CHR 0x5C, CHR ''f'']
      else if 32 \<le> code_point c \<and> code_point c \<le> 126 then [c]
      else [CHR 0x5C, CHR ''u'', CHR ''0'', CHR ''0'',
            hex_lower (code_point c div 16), hex_lower (code_point c mod 16)])"

definition json_string :: "string \<Rightarrow> string" where
  "json_string x = [CHR 0x22] @ concat (map json_escape_char x) @ [CHR 0x22]"

definition newline_indent :: "nat \<Rightarrow> string" where
  "newline_indent level = CHR 0x0A # replicate (2 * level) CHR '' ''"

fun json_dumps :: "nat \<Rightarrow> json \<Rightarrow> string" where
  "json_dumps level JNull = ''null''"
| "json_dumps level (JBool v) = (if v then ''true'' else ''false'')"
| "json_dumps level (JInt i) = str_of_int i"
| "json_dumps level (JStr x) = json_string x"
| "json_dumps level (JList xs) =
     (if xs = [] then ''[]''
      else ''['' @ newline_indent (level + 1)
           @ join ('','' @ newline_indent (level + 1)) (map (json_dumps (level + 1)) xs)
           @ newline_indent level @ '']'')"
| "json_dumps level (JDict kvs) =
     (if kvs = [] then ''{}''
      else ''{'' @ newline_indent (level + 1)
           @ join ('','' @ newline_indent (level + 1))
               (map (\<lambda>kv. json_string (fst kv) @ '': '' @ json_dumps (level + 1) (snd kv)) kvs)
           @ newline_indent level @ ''}'')"

subsection \<open>Tool handlers\<close>

datatype text_content = TextContent (content_type: string) (content_text: string)

text \<open>
  A handler is a closure over the bridge: it takes the arguments mapping and either raises
  or returns content blocks. Opening and closing the HTTP session around the bridge call
  has no effect on what is requested or returned and is left out.
\<close>

type_synonym handler =
  "server \<Rightarrow> bridge \<Rightarrow> (string \<rightharpoonup> json) \<Rightarrow> io \<Rightarrow> (exn + text_content list) \<times> io"

text \<open>\<open>arguments.get(key, default)\<close>; without a default it is \<open>None\<close>.\<close>

definition arguments_get :: "(string \<rightharpoonup> json) \<Rightarrow> string \<Rightarrow> json \<Rightarrow> json" where
  "arguments_get arguments k d = (case arguments k of None \<Rightarrow> d | Some v \<Rightarrow> v)"

text \<open>The \<open>return\<close> of every handler: one text block holding \<open>json.dumps(result, indent=2)\<close>.\<close>

definition text_result :: "(exn + json) \<times> io \<Rightarrow> (exn + text_content list) \<times> io" where
  "text_result r =
     (case r of
        (Inl e, s) \<Rightarrow> (Inl e, s)
      | (Inr result, s) \<Rightarrow> (Inr [TextContent ''text'' (json_dumps 0 result)], s))"

definition get_protein_summary_tool :: handler where
  "get_protein_summary_tool srv b arguments s =
     (let gene_name = arguments_get arguments ''gene_name'' (JStr []);
          organism = arguments_get arguments ''organism'' (JStr ''human'')
      in if \<not> truthy gene_name then (Inl (ValueError ''gene_name parameter is required''), s)
         else text_result (get_protein_summary srv b gene_name organism s))"

definition find_protein_accession_tool :: handler where
  "find_protein_accession_tool srv b arguments s =
     (let gene_name = arguments_get arguments ''gene_name'' (JStr []);
          organism = arguments_get arguments ''organism'' (JStr ''human'')
      in if \<not> truthy gene_name then (Inl (ValueError ''gene_name parameter is required''), s)
         else text_result (find_protein_accession srv b gene_name organism s))"

definition search_proteins_tool :: handler where
  "search_proteins_tool srv b arguments s =
     (let query = arguments_get arguments ''query'' (JStr []);
          size' = arguments_get arguments ''size'' (JInt 20);
          offset = arguments_get arguments ''offset'' (JInt 0)
      in text_result (search_proteins srv b query size' offset [] s))"

definition get_protein_by_accession_tool :: handler where
  "get_protein_by_accession_tool srv b arguments s =
     (let accession = arguments_get arguments ''accession'' JNull
      in if \<not> truthy accession then (Inl (ValueError ''accession parameter is required''), s)
         else text_result (get_protein_by_accession srv b accession s))"

definition get_protein_interactions_tool :: handler where
  "get_protein_interactions_tool srv b arguments s =
     (let accession = arguments_get arguments ''accession'' JNull
      in if \<not> truthy accession then (Inl (ValueError ''accession parameter is required''), s)
         else text_result (get_protein_interactions srv b accession s))"

definition get_protein_isoforms_tool :: handler where
  "get_protein_isoforms_tool srv b arguments s =
     (let accession = arguments_get arguments ''accession'' JNull
      in if \<not> truthy accession then (Inl (ValueError ''accession parameter is required''), s)
         else text_result (get_protein_isoforms srv b accession s))"

definition search_features_tool :: handler where
  "search_features_tool srv b arguments s =
     (let query = arguments_get arguments ''query'' (JStr []);
          size' = arguments_get arguments ''size'' (JInt 20);
          offset = arguments_get arguments ''offset'' (JInt 0)
      in text_result (search_features srv b query size' offset s))"

definition get_features_by_accession_tool :: handler where
  "get_features_by_accession_tool srv b arguments s =
     (let accession = arguments_get arguments ''accession'' JNull
      in if \<not> truthy accession then (Inl (ValueError ''accession parameter is required''), s)
         else text_result (get_features_by_accession srv b accession s))"

definition get_features_by_type_tool :: handler where
  "get_features_by_type_tool srv b arguments s =
     (let feature_type = arguments_get arguments ''feature_type'' JNull
      in if \<not> truthy feature_type then (Inl (ValueError ''feature_type parameter is required''), s)
         else
           (let size' = arguments_get arguments ''size'' (JInt 20);
                offset = arguments_get arguments ''offset'' (JInt 0)
            in text_result (get_features_by_type srv b feature_type size' offset s)))"

definition search_variations_tool :: handler where
  "search_variations_tool srv b arguments s =
     (let query = arguments_get arguments ''query'' (JStr []);
          size' = arguments_get arguments ''size'' (JInt 20);
          offset = arguments_get arguments ''offset'' (JInt 0)
      in text_result (search_variations srv b query size' offset s))"

definition get_variations_by_accession_tool :: handler where
  "get_variations_by_accession_tool srv b arguments s =
     (let accession = arguments_get arguments ''accession'' JNull
      in if \<not> truthy accession then (Inl (ValueError ''accession parameter is required''), s)
         else text_result (get_variations_by_accession srv b accession s))"

definition get_variations_by_dbsnp_tool :: handler where
  "get_variations_by_dbsnp_tool srv b arguments s =
     (let dbid = arguments_get arguments ''dbid'' JNull
      in if \<not> truthy dbid then (Inl (ValueError ''dbid parameter is required''), s)
         else text_result (get_variations_by_dbsnp srv b dbid s))"

definition search_antigens_tool :: handler where
  "search_antigens_tool srv b arguments s =
     (let query = arguments_get arguments ''query'' (JStr []);
          size' = arguments_get arguments ''size'' (JInt 20);
          offset = arguments_get arguments ''offset'' (JInt 0)
      in text_result (search_antigens srv b query size' offset s))"

definition get_antigen_by_accession_tool :: handler where
  "get_antigen_by_accession_tool srv b arguments s =
     (let accession = arguments_get arguments ''accession'' JNull
      in if \<not> truthy accession then (Inl (ValueError ''accession parameter is required''), s)
         else text_result (get_antigen_by_accession srv b accession s))"

definition search_epitopes_tool :: handler where
  "search_epitopes_tool srv b arguments s =
     (let query = arguments_get arguments ''query'' (JStr []);
          size' = arguments_get arguments ''size'' (JInt 20);
          offset = arguments_get arguments ''offset'' (JInt 0)
      in text_result (search_epitopes srv b query size' offset s))"

definition get_epitope_by_accession_tool :: handler where
  "get_epitope_by_accession_tool srv b arguments s =
     (let accession = arguments_get arguments ''accession'' JNull
      in if \<not> truthy accession then (Inl (ValueError ''accession parameter is required''), s)
         else text_result (get_epitope_by_accession srv b accession s))"

definition search_proteomics_tool :: handler where
  "search_proteomics_tool srv b arguments s =
     (let query = arguments_get arguments ''query'' (JStr []);
          size' = arguments_get arguments ''size'' (JInt 20);
          offset = arguments_get arguments ''offset'' (JInt 0)
      in text_result (search_proteomics srv b query size' offset s))"

definition get_proteomics_by_accession_tool :: handler where
  "get_proteomics_by_accession_tool srv b arguments s =
     (let accession = arguments_get arguments ''accession'' JNull
      in if \<not> truthy accession then (Inl (ValueError ''accession parameter is required''), s)
         else text_result (get_proteomics_by_accession srv b accession s))"

definition get_proteomics_species_tool :: handler where
  "get_proteomics_species_tool srv b arguments s = text_result (get_proteomics_species srv b s)"

definition search_proteomes_tool :: handler where
  "search_proteomes_tool srv b arguments s =
     (let query = arguments_get arguments ''query'' (JStr []);
          size' = arguments_get arguments ''size'' (JInt 20);
          offset = arguments_get arguments ''offset'' (JInt 0)
      in text_result (search_proteomes srv b query size' offset s))"

definition get_proteome_by_upid_tool :: handler where
  "get_proteome_by_upid_tool srv b arguments s =
     (let upid = arguments_get arguments ''upid'' JNull
      in if \<not> truthy upid then (Inl (ValueError ''upid parameter is required''), s)
         else text_result (get_proteome_by_upid srv b upid s))"

definition get_proteome_proteins_tool :: handler where
  "get_proteome_proteins_tool srv b arguments s =
     (let upid = arguments_get arguments ''upid'' JNull
      in if \<not> truthy upid then (Inl (ValueError ''upid parameter is required''), s)
         else text_result (get_proteome_proteins srv b upid s))"

definition get_taxonomy_by_id_tool :: handler where
  "get_taxonomy_by_id_tool srv b arguments s =
     (let tax_id = arguments_get arguments ''tax_id'' JNull
      in if \<not> truthy tax_id then (Inl (ValueError ''tax_id parameter is required''), s)
         else text_result (get_taxonomy_by_id srv b (JStr (str tax_id)) s))"

definition get_taxonomy_lineage_tool :: handler where
  "get_taxonomy_lineage_tool srv b arguments s =
     (let tax_id = arguments_get arguments ''tax_id'' JNull
      in if \<not> truthy tax_id then (Inl (ValueError ''tax_id parameter is required''), s)
         else text_result (get_taxonomy_lineage srv b (JStr (str tax_id)) s))"

definition get_taxonomy_children_tool :: handler where
  "get_taxonomy_children_tool srv b arguments s =
     (let tax_id = arguments_get arguments ''tax_id'' JNull
      in if \<not> truthy tax_id then (Inl (ValueError ''tax_id parameter is required''), s)
         else text_result (get_taxonomy_children srv b (JStr (str tax_id)) s))"

definition search_coordinates_tool :: handler where
  "search_coordinates_tool srv b arguments s =
     (let query = arguments_get arguments ''query'' (JStr []);
          size' = arguments_get arguments ''size'' (JInt 20);
          offset = arguments_get arguments ''offset'' (JInt 0)
      in text_result (search_coordinates srv b query size' offset s))"

definition get_coordinates_by_accession_tool :: handler where
  "get_coordinates_by_accession_tool srv b arguments s =
     (let accession = arguments_get arguments ''accession'' JNull
      in if \<not> truthy accession then (Inl (ValueError ''accession parameter is required''), s)
         else text_result (get_coordinates_by_accession srv b accession s))"

definition search_uniparc_tool :: handler where
  "search_uniparc_tool srv b arguments s =
     (let query = arguments_get arguments ''query'' (JStr []);
          size' = arguments_get arguments ''size'' (JInt 20);
          offset = arguments_get arguments ''offset'' (JInt 0)
      in text_result (search_uniparc srv b query size' offset s))"

definition get_uniparc_by_upi_tool :: handler where
  "get_uniparc_by_upi_tool srv b arguments s =
     (let upi = arguments_get arguments ''upi'' JNull
      in if \<not> truthy upi then (Inl (ValueError ''upi parameter is required''), s)
         else text_result (get_uniparc_by_upi srv b upi s))"

definition get_uniparc_by_accession_tool :: handler where
  "get_uniparc_by_accession_tool srv b arguments s =
     (let accession = arguments_get arguments ''accession'' JNull
      in if \<not> truthy accession then (Inl (ValueError ''accession parameter is required''), s)
         else text_result (get_uniparc_by_accession srv b accession s))"

subsection \<open>Registry and dispatch\<close>

type_synonym registry = "string \<rightharpoonup> handler"

definition register_tool :: "registry \<Rightarrow> string \<Rightarrow> handler \<Rightarrow> registry" where
  "register_tool reg name h = reg(name \<mapsto> h)"

text \<open>The registrations of \<open>_setup_tools\<close> (lines 513-542), in order.\<close>

definition registrations :: "(string \<times> handler) list" where
  "registrations =
     [(''get_protein_summary'', get_protein_summary_tool),
      (''find_protein_accession'', find_protein_accession_tool),
      (''search_proteins'', search_proteins_tool),
      (''get_protein_by_accession'', get_protein_by_accession_tool),
      (''get_protein_interactions'', get_protein_interactions_tool),
      (''get_protein_isoforms'', get_protein_isoforms_tool),
      (''search_features'', search_features_tool),
      (''get_features_by_accession'', get_features_by_accession_tool),
      (''get_features_by_type'', get_features_by_type_tool),
      (''search_variations'', search_variations_tool),
      (''get_variations_by_accession'', get_variations_by_accession_tool),
      (''get_variations_by_dbsnp'', get_variations_by_dbsnp_tool),
      (''search_antigens'', search_antigens_tool),
      (''get_antigen_by_accession'', get_antigen_by_accession_tool),
      (''search_epitopes'', search_epitopes_tool),
      (''get_epitope_by_accession'', get_epitope_by_accession_tool),
      (''search_proteomics'', search_proteomics_tool),
      (''get_proteomics_by_accession'', get_proteomics_by_accession_tool),
      (''get_proteomics_species'', get_proteomics_species_tool),
      (''search_proteomes'', search_proteomes_tool),
      (''get_proteome_by_upid'', get_proteome_by_upid_tool),
      (''get_proteome_proteins'', get_proteome_proteins_tool),
      (''get_taxonomy_by_id'', get_taxonomy_by_id_tool),
      (''get_taxonomy_lineage'', get_taxonomy_lineage_tool),
      (''get_taxonomy_children'', get_taxonomy_children_tool),
      (''search_coordinates'', search_coordinates_tool),
      (''get_coordinates_by_accession'', get_coordinates_by_accession_tool),
      (''search_uniparc'', search_uniparc_tool),
      (''get_uniparc_by_upi'', get_uniparc_by_upi_tool),
      (''get_uniparc_by_accession'', get_uniparc_by_accession_tool)]"

definition setup_tools :: registry where
  "setup_tools = foldl (\<lambda>reg nh. register_tool reg (fst nh) (snd nh)) Map.empty registrations"

text \<open>
  The global handler (lines 46-72). The lookup and the call are the body of one \<open>try\<close>;
  its \<open>except Exception\<close> turns whatever was raised into an error block.
\<close>

definition global_tool_handler_try ::
  "registry \<Rightarrow> server \<Rightarrow> bridge \<Rightarrow> string \<Rightarrow> (string \<rightharpoonup> json) \<Rightarrow> io \<Rightarrow> (exn + text_content list) \<times> io" where
  "global_tool_handler_try reg srv b tool_name arguments s =
     (case reg tool_name of
        None \<Rightarrow>
          (Inr [TextContent ''text'' (''Error: Tool '' @ [CHR 0x27] @ tool_name @ [CHR 0x27] @ '' not found'')], s)
      | Some handler \<Rightarrow> handler srv b arguments s)"

definition global_tool_handler ::
  "registry \<Rightarrow> server \<Rightarrow> bridge \<Rightarrow> string \<Rightarrow> (string \<rightharpoonup> json) \<Rightarrow> io \<Rightarrow> (exn + text_content list) \<times> io" where
  "global_tool_handler reg srv b tool_name arguments s =
     (case global_tool_handler_try reg srv b tool_name arguments s of
        (Inl e, s1) \<Rightarrow> (Inr [TextContent ''text'' (''Error: '' @ str_exn e)], s1)
      | (Inr result, s1) \<Rightarrow> (Inr result, s1))"

subsection \<open>Tool definitions\<close>

text \<open>
  Of each \<open>types.Tool\<close> of \<open>get_tool_definitions\<close>: its name, the names of its
  properties with their defaults, and the \<open>required\<close> list. Descriptions are left out.
\<close>

record tool =
  name :: string
  properties :: "(string \<times> json option) list"
  required :: "string list"

definition get_tool_definitions :: "tool list" where
  "get_tool_definitions =
     [\<lparr>name = ''get_protein_summary'', properties = [(''gene_name'', None), (''organism'', Some (JStr ''human''))],
        required = [''gene_name'']\<rparr>,
      \<lparr>name = ''find_protein_accession'', properties = [(''gene_name'', None), (''organism'', Some (JStr ''human''))],
        required = [''gene_name'']\<rparr>,
      \<lparr>name = ''search_proteins'', properties = [(''query'', None), (''size'', Some (JInt 20)), (''offset'', Some (JInt 0))],
        required = [''query'']\<rparr>,
      \<lparr>name = ''get_protein_by_accession'', properties = [(''accession'', None)],
        required = [''accession'']\<rparr>,
      \<lparr>name = ''get_protein_interactions'', properties = [(''accession'', None)],
        required = [''accession'']\<rparr>,
      \<lparr>name = ''get_protein_isoforms'', properties = [(''accession'', None)],
        required = [''accession'']\<rparr>,
      \<lparr>name = ''search_features'', properties = [(''query'', None), (''size'', Some (JInt 20)), (''offset'', Some (JInt 0))],
        required = [''query'']\<rparr>,
      \<lparr>name = ''get_features_by_accession'', properties = [(''accession'', None)],
        required = [''accession'']\<rparr>,
      \<lparr>name = ''get_features_by_type'', properties = [(''feature_type'', None), (''size'', Some (JInt 20)), (''offset'', Some (JInt 0))],
        required = [''feature_type'']\<rparr>,
      \<lparr>name = ''search_variations'', properties = [(''query'', None), (''size'', Some (JInt 20)), (''offset'', Some (JInt 0))],
        required = [''query'']\<rparr>,
      \<lparr>name = ''get_variations_by_accession'', properties = [(''accession'', None)],
        required = [''accession'']\<rparr>,
      \<lparr>name = ''get_variations_by_dbsnp'', properties = [(''dbid'', None)],
        required = [''dbid'']\<rparr>,
      \<lparr>name = ''search_antigens'', properties = [(''query'', None), (''size'', Some (JInt 20)), (''offset'', Some (JInt 0))],
        required = [''query'']\<rparr>,
      \<lparr>name = ''get_antigen_by_accession'', properties = [(''accession'', None)],
        required = [''accession'']\<rparr>,
      \<lparr>name = ''search_epitopes'', properties = [(''query'', None), (''size'', Some (JInt 20)), (''offset'', Some (JInt 0))],
        required = [''query'']\<rparr>,
      \<lparr>name = ''get_epitope_by_accession'', properties = [(''accession'', None)],
        required = [''accession'']\<rparr>,
      \<lparr>name = ''search_proteomics'', properties = [(''query'', None), (''size'', Some (JInt 20)), (''offset'', Some (JInt 0))],
        required = [''query'']\<rparr>,
      \<lparr>name = ''get_proteomics_by_accession'', properties = [(''accession'', None)],
        required = [''accession'']\<rparr>,
      \<lparr>name = ''get_proteomics_species'', properties = [],
        required = []\<rparr>,
      \<lparr>name = ''search_proteomes'', properties = [(''query'', None), (''size'', Some (JInt 20)), (''offset'', Some (JInt 0))],
        required = [''query'']\<rparr>,
      \<lparr>name = ''get_proteome_by_upid'', properties = [(''upid'', None)],
        required = [''upid'']\<rparr>,
      \<lparr>name = ''get_proteome_proteins'', properties = [(''upid'', None)],
        required = [''upid'']\<rparr>,
      \<lparr>name = ''get_taxonomy_by_id'', properties = [(''tax_id'', None)],
        required = [''tax_id'']\<rparr>,
      \<lparr>name = ''get_taxonomy_lineage'', properties = [(''tax_id'', None)],
        required = [''tax_id'']\<rparr>,
      \<lparr>name = ''get_taxonomy_children'', properties = [(''tax_id'', None)],
        required = [''tax_id'']\<rparr>,
      \<lparr>name = ''search_coordinates'', properties = [(''query'', None), (''size'', Some (JInt 20)), (''offset'', Some (JInt 0))],
        required = [''query'']\<rparr>,
      \<lparr>name = ''get_coordinates_by_accession'', properties = [(''accession'', None)],
        required = [''accession'']\<rparr>,
      \<lparr>name = ''search_uniparc'', properties = [(''query'', None), (''size'', Some (JInt 20)), (''offset'', Some (JInt 0))],
        required = [''query'']\<rparr>,
      \<lparr>name = ''get_uniparc_by_upi'', properties = [(''upi'', None)],
        required = [''upi'']\<rparr>,
      \<lparr>name = ''get_uniparc_by_accession'', properties = [(''accession'', None)],
        required = [''accession'']\<rparr>]"

section \<open>Simulated services\<close>

text \<open>Services with scripted answers, on which the theorems below are instantiated.\<close>

definition simple_response :: "int \<Rightarrow> string \<Rightarrow> response" where
  "simple_response code txt =
     \<lparr>status = code, retry_after = None, body_text = Inr txt,
      body_json = Inl (ValueError ''Expecting value: line 1 column 1 (char 0)'')\<rparr>"

definition json_response :: "json \<Rightarrow> response" where
  "json_response j = \<lparr>status = 200, retry_after = None, body_text = Inr [], body_json = Inr j\<rparr>"

text \<open>Two server errors, then a last answer with the given status.\<close>

definition flaky_server :: "int \<Rightarrow> server" where
  "flaky_server final n url =
     (if n < 2 then Inr (simple_response 500 ''busy'')
      else Inr \<lparr>status = final, retry_after = None, body_text = Inr ''down'',
                body_json = Inr (JDict [(''accession'', JStr ''P04637'')])\<rparr>)"

text \<open>The same answer to every request.\<close>

definition const_server :: "response \<Rightarrow> server" where
  "const_server r n url = Inr r"

text \<open>A rate-limited service: every request is answered with 429 and the given header.\<close>

definition rate_limited_server :: "string option \<Rightarrow> server" where
  "rate_limited_server header n url =
     Inr \<lparr>status = 429, retry_after = header, body_text = Inr ''Too Many Requests'',
          body_json = Inl (ValueError ''Expecting value: line 1 column 1 (char 0)'')\<rparr>"

text \<open>
  A service that knows one protein: the features of P04637 are missing (404), its
  interactions are empty, and every search finds the entry.
\<close>

definition summary_server :: server where
  "summary_server n url =
     (if url = ''https://www.ebi.ac.uk/proteins/api/features/P04637''
      then Inr (simple_response 404 ''no features'')
      else if url = ''https://www.ebi.ac.uk/proteins/api/proteins/interaction/P04637''
      then Inr (json_response (JList []))
      else Inr (json_response (JList [JDict [(''accession'', JStr ''P04637''), (''id'', JStr ''P53_HUMAN'')]])))"

section \<open>Escaped text\<close>

text \<open>
  The characters of percent-encoded text: the unreserved characters, the percent sign of an
  escape, and the plus sign that stands for a space.
\<close>

definition escaped_char :: "char \<Rightarrow> bool" where
  "escaped_char c = (always_safe c \<or> c = CHR ''%'' \<or> c = CHR ''+'')"

definition is_escaped :: "string \<Rightarrow> bool" where
  "is_escaped x = list_all escaped_char x"

section \<open>The retry loop, one attempt at a time\<close>

lemma EMBLEBIBridge_fields [simp]:
  "base_url EMBLEBIBridge = ''https://www.ebi.ac.uk/proteins/api''"
  "max_retries EMBLEBIBridge = 3"
  "retry_delay EMBLEBIBridge = 1"
  by (simp_all add: EMBLEBIBridge_def)

lemma io0_fields [simp]: "requests io0 = []" "sleeps io0 = []"
  by (simp_all add: io0_def)

lemma simple_response_fields [simp]:
  "status (simple_response code txt) = code"
  "retry_after (simple_response code txt) = None"
  "body_text (simple_response code txt) = Inr txt"
  by (simp_all add: simple_response_def)

lemma json_response_fields [simp]:
  "status (json_response j) = 200"
  "body_json (json_response j) = Inr j"
  by (simp_all add: json_response_def)

lemma request_loop_exhausted:
  "\<not> int attempt < max_retries b \<Longrightarrow>
   request_loop srv b url attempt s =
     (Inl (Exception (''Failed to complete request after '' @ str_of_int (max_retries b) @ '' attempts'')), s)"
  by (subst request_loop.simps) simp

lemma request_loop_return:
  "int attempt < max_retries b \<Longrightarrow> attempt_try srv b url attempt s = (Return j, s1) \<Longrightarrow>
   request_loop srv b url attempt s = (Inr j, s1)"
  by (subst request_loop.simps) simp

lemma request_loop_raise:
  "int attempt < max_retries b \<Longrightarrow> attempt_try srv b url attempt s = (Raise e, s1) \<Longrightarrow>
   request_loop srv b url attempt s = (Inl e, s1)"
  by (subst request_loop.simps) simp

lemma request_loop_continue:
  "int attempt < max_retries b \<Longrightarrow> attempt_try srv b url attempt s = (Continue, s1) \<Longrightarrow>
   request_loop srv b url attempt s = request_loop srv b url (Suc attempt) s1"
  by (subst request_loop.simps) simp

lemma attempt_try_200:
  "srv (length (requests s)) url = Inr r \<Longrightarrow> status r = 200 \<Longrightarrow> body_json r = Inr j \<Longrightarrow>
   attempt_try srv b url attempt s = (Return j, s\<lparr>requests := requests s @ [url]\<rparr>)"
  by (simp add: attempt_try_def session_get_def attempt_body_def)

lemma attempt_try_404:
  "srv (length (requests s)) url = Inr r \<Longrightarrow> status r = 404 \<Longrightarrow> body_text r = Inr t \<Longrightarrow>
   attempt_try srv b url attempt s =
     (Raise (ValueError (''Resource not found (404): '' @ t)), s\<lparr>requests := requests s @ [url]\<rparr>)"
  by (simp add: attempt_try_def session_get_def attempt_body_def attempt_except_def)

lemma attempt_try_429:
  "srv (length (requests s)) url = Inr r \<Longrightarrow> status r = 429 \<Longrightarrow>
   retry_after_seconds b attempt r = Inr d \<Longrightarrow>
   attempt_try srv b url attempt s =
     (Continue, s\<lparr>requests := requests s @ [url], sleeps := sleeps s @ [of_int d]\<rparr>)"
  by (simp add: attempt_try_def session_get_def attempt_body_def asyncio_sleep_def)

lemma attempt_try_429_bad_header:
  "srv (length (requests s)) url = Inr r \<Longrightarrow> status r = 429 \<Longrightarrow>
   retry_after_seconds b attempt r = Inl (ValueError m) \<Longrightarrow>
   attempt_try srv b url attempt s = (Raise (ValueError m), s\<lparr>requests := requests s @ [url]\<rparr>)"
  by (simp add: attempt_try_def session_get_def attempt_body_def attempt_except_def)

lemma attempt_try_5xx_retry:
  "srv (length (requests s)) url = Inr r \<Longrightarrow> 500 \<le> status r \<Longrightarrow> body_text r = Inr t \<Longrightarrow>
   int attempt < max_retries b - 1 \<Longrightarrow>
   attempt_try srv b url attempt s =
     (Continue, s\<lparr>requests := requests s @ [url],
                  sleeps := sleeps s @ [retry_delay b * of_nat (attempt + 1)]\<rparr>)"
  by (simp add: attempt_try_def session_get_def attempt_body_def asyncio_sleep_def)

lemma attempt_try_5xx_last:
  "srv (length (requests s)) url = Inr r \<Longrightarrow> 500 \<le> status r \<Longrightarrow> body_text r = Inr t \<Longrightarrow>
   \<not> int attempt < max_retries b - 1 \<Longrightarrow>
   attempt_try srv b url attempt s =
     (Raise (Exception (''Server error '' @ str_of_int (status r) @ '': '' @ t)),
      s\<lparr>requests := requests s @ [url]\<rparr>)"
  by (simp add: attempt_try_def session_get_def attempt_body_def attempt_except_def)

lemma str_of_int_500: "str_of_int 500 = ''500''"
  by code_simp

lemma str_of_int_3: "str_of_int 3 = ''3''"
  by code_simp

lemma build_url_no_params:
  "build_url b endpoint None = rstrip CHR ''/'' (base_url b) @ ''/'' @ lstrip CHR ''/'' endpoint"
  by (simp add: build_url_def)

lemma rstrip_base_url [simp]:
  "rstrip CHR ''/'' ''https://www.ebi.ac.uk/proteins/api'' = ''https://www.ebi.ac.uk/proteins/api''"
  by (simp add: rstrip_def)

lemma make_request_first_200:
  assumes "0 < max_retries b"
    and "srv (length (requests s)) (build_url b endpoint params) = Inr r"
    and "status r = 200" and "body_json r = Inr j"
  shows "make_request srv b endpoint params s =
           (Inr j, s\<lparr>requests := requests s @ [build_url b endpoint params]\<rparr>)"
proof -
  have "attempt_try srv b (build_url b endpoint params) 0 s =
          (Return j, s\<lparr>requests := requests s @ [build_url b endpoint params]\<rparr>)"
    using assms by (intro attempt_try_200[where r = r]) simp_all
  then show ?thesis
    unfolding make_request_def using assms(1) by (intro request_loop_return) simp_all
qed

lemma make_request_first_404:
  assumes "0 < max_retries b"
    and "srv (length (requests s)) (build_url b endpoint params) = Inr r"
    and "status r = 404" and "body_text r = Inr t"
  shows "make_request srv b endpoint params s =
           (Inl (ValueError (''Resource not found (404): '' @ t)),
            s\<lparr>requests := requests s @ [build_url b endpoint params]\<rparr>)"
proof -
  have "attempt_try srv b (build_url b endpoint params) 0 s =
          (Raise (ValueError (''Resource not found (404): '' @ t)),
           s\<lparr>requests := requests s @ [build_url b endpoint params]\<rparr>)"
    using assms by (intro attempt_try_404[where r = r]) simp_all
  then show ?thesis
    unfolding make_request_def using assms(1) by (intro request_loop_raise) simp_all
qed

section \<open>Retry policy of the request primitive\<close>

text \<open>
  C1. With the attempt cap at 3, when the first two attempts are answered with HTTP 500
  (and their bodies can be read), the call sleeps once and twice the base delay and makes a
  third attempt. If that one is answered with 200 and a body that decodes, the call returns
  the decoded body; if it is answered with 500, the call raises the server error with the
  status and the body. Either way exactly three requests have been issued.
\<close>

theorem make_request_retries_server_errors:
  assumes cap: "max_retries b = 3"
    and url: "url = build_url b endpoint params"
    and n: "n = length (requests s)"
    and r0: "srv n url = Inr r0" "status r0 = 500" "body_text r0 = Inr t0"
    and r1: "srv (n + 1) url = Inr r1" "status r1 = 500" "body_text r1 = Inr t1"
    and r2: "srv (n + 2) url = Inr r2"
    and s': "s' = s\<lparr>requests := requests s @ [url, url, url],
                     sleeps := sleeps s @ [retry_delay b * 1, retry_delay b * 2]\<rparr>"
  shows "(status r2 = 200 \<and> body_json r2 = Inr j \<longrightarrow>
            make_request srv b endpoint params s = (Inr j, s'))
       \<and> (status r2 = 500 \<and> body_text r2 = Inr t2 \<longrightarrow>
            make_request srv b endpoint params s = (Inl (Exception (''Server error 500: '' @ t2)), s'))"
proof -
  let ?s1 = "s\<lparr>requests := requests s @ [url], sleeps := sleeps s @ [retry_delay b * 1]\<rparr>"
  let ?s2 = "s\<lparr>requests := requests s @ [url, url],
                 sleeps := sleeps s @ [retry_delay b * 1, retry_delay b * 2]\<rparr>"
  have a0: "attempt_try srv b url 0 s = (Continue, ?s1)"
    using attempt_try_5xx_retry[of srv s url r0 t0 0 b] r0 n cap by simp
  have a1: "attempt_try srv b url (Suc 0) ?s1 = (Continue, ?s2)"
    using attempt_try_5xx_retry[of srv ?s1 url r1 t1 "Suc 0" b] r1 n cap by simp
  have step: "request_loop srv b url 0 s = request_loop srv b url (Suc (Suc 0)) ?s2"
    using request_loop_continue[OF _ a0] request_loop_continue[OF _ a1] cap by simp
  have s2: "?s2\<lparr>requests := requests ?s2 @ [url]\<rparr> = s'"
    by (simp add: s')
  have ok: "make_request srv b endpoint params s = (Inr j, s')"
    if "status r2 = 200" "body_json r2 = Inr j"
  proof -
    have "attempt_try srv b url (Suc (Suc 0)) ?s2 = (Return j, s')"
      using attempt_try_200[of srv ?s2 url r2 j b "Suc (Suc 0)"] r2 n that s2 by simp
    then show ?thesis
      using request_loop_return[of "Suc (Suc 0)" b srv url ?s2 j s'] cap step url
      by (simp add: make_request_def)
  qed
  have bad: "make_request srv b endpoint params s = (Inl (Exception (''Server error 500: '' @ t2)), s')"
    if "status r2 = 500" "body_text r2 = Inr t2"
  proof -
    have "attempt_try srv b url (Suc (Suc 0)) ?s2 = (Raise (Exception (''Server error 500: '' @ t2)), s')"
      using attempt_try_5xx_last[of srv ?s2 url r2 t2 "Suc (Suc 0)" b] r2 n that s2 cap
      by (simp add: str_of_int_500)
    then show ?thesis
      using request_loop_raise[of "Suc (Suc 0)" b srv url ?s2 _ s'] cap step url
      by (simp add: make_request_def)
  qed
  from ok bad show ?thesis by blast
qed

theorem make_request_retries_server_errors_witness:
  "make_request (flaky_server 200) EMBLEBIBridge ''proteins/P04637'' None io0 =
     (Inr (JDict [(''accession'', JStr ''P04637'')]),
      \<lparr>requests = replicate 3 ''https://www.ebi.ac.uk/proteins/api/proteins/P04637'', sleeps = [1, 2]\<rparr>)
   \<and> make_request (flaky_server 500) EMBLEBIBridge ''proteins/P04637'' None io0 =
     (Inl (Exception ''Server error 500: down''),
      \<lparr>requests = replicate 3 ''https://www.ebi.ac.uk/proteins/api/proteins/P04637'', sleeps = [1, 2]\<rparr>)"
proof -
  let ?u = "''https://www.ebi.ac.uk/proteins/api/proteins/P04637''"
  let ?last = "\<lambda>c. \<lparr>status = c, retry_after = None, body_text = Inr ''down'',
                     body_json = Inr (JDict [(''accession'', JStr ''P04637'')])\<rparr>"
  let ?s' = "io0\<lparr>requests := requests io0 @ [?u, ?u, ?u],
                  sleeps := sleeps io0 @ [retry_delay EMBLEBIBridge * 1, retry_delay EMBLEBIBridge * 2]\<rparr>"
  have u: "?u = build_url EMBLEBIBridge ''proteins/P04637'' None"
    by (simp add: build_url_no_params lstrip_def)
  have good: "make_request (flaky_server 200) EMBLEBIBridge ''proteins/P04637'' None io0 =
                (Inr (JDict [(''accession'', JStr ''P04637'')]), ?s')"
    using make_request_retries_server_errors[where b = EMBLEBIBridge and url = ?u
            and endpoint = "''proteins/P04637''" and params = None and n = 0 and s = io0
            and srv = "flaky_server 200" and ?r0.0 = "simple_response 500 ''busy''" and ?t0.0 = "''busy''"
            and ?r1.0 = "simple_response 500 ''busy''" and ?t1.0 = "''busy''"
            and ?r2.0 = "?last 200" and s' = ?s'
            and j = "JDict [(''accession'', JStr ''P04637'')]", OF _ u]
    by (simp add: flaky_server_def)
  have bad: "make_request (flaky_server 500) EMBLEBIBridge ''proteins/P04637'' None io0 =
                (Inl (Exception ''Server error 500: down''), ?s')"
    using make_request_retries_server_errors[where b = EMBLEBIBridge and url = ?u
            and endpoint = "''proteins/P04637''" and params = None and n = 0 and s = io0
            and srv = "flaky_server 500" and ?r0.0 = "simple_response 500 ''busy''" and ?t0.0 = "''busy''"
            and ?r1.0 = "simple_response 500 ''busy''" and ?t1.0 = "''busy''"
            and ?r2.0 = "?last 500" and s' = ?s'
            and ?t2.0 = "''down''", OF _ u]
    by (simp add: flaky_server_def)
  show ?thesis
    using good bad by (simp add: io0_def numeral_3_eq_3)
qed

text \<open>
  C4. When the first attempt is answered with HTTP 404 (and its body can be read), the call
  raises the not-found error carrying the body text after that single request; the same holds
  at any attempt of the loop, whatever the number of attempts left.
\<close>

theorem make_request_404_not_retried:
  assumes "srv (length (requests s)) url = Inr r" and "status r = 404" and "body_text r = Inr t"
    and "url = build_url b endpoint params"
  shows "(0 < max_retries b \<longrightarrow>
            make_request srv b endpoint params s =
              (Inl (ValueError (''Resource not found (404): '' @ t)), s\<lparr>requests := requests s @ [url]\<rparr>))
       \<and> (int attempt < max_retries b \<longrightarrow>
            request_loop srv b url attempt s =
              (Inl (ValueError (''Resource not found (404): '' @ t)), s\<lparr>requests := requests s @ [url]\<rparr>))"
proof -
  have a: "attempt_try srv b url attempt s =
             (Raise (ValueError (''Resource not found (404): '' @ t)), s\<lparr>requests := requests s @ [url]\<rparr>)"
    using assms by (intro attempt_try_404[where r = r]) simp_all
  have "request_loop srv b url attempt s =
          (Inl (ValueError (''Resource not found (404): '' @ t)), s\<lparr>requests := requests s @ [url]\<rparr>)"
    if "int attempt < max_retries b"
    using that a by (intro request_loop_raise) simp_all
  moreover have "make_request srv b endpoint params s =
          (Inl (ValueError (''Resource not found (404): '' @ t)), s\<lparr>requests := requests s @ [url]\<rparr>)"
    if "0 < max_retries b"
    using that assms make_request_first_404[of b srv s endpoint params r t] by simp
  ultimately show ?thesis by blast
qed

theorem make_request_404_not_retried_witness:
  "make_request (const_server (simple_response 404 ''no such entry'')) EMBLEBIBridge ''proteins/X'' None io0 =
     (Inl (ValueError ''Resource not found (404): no such entry''),
      \<lparr>requests = [''https://www.ebi.ac.uk/proteins/api/proteins/X''], sleeps = []\<rparr>)"
proof -
  have u: "''https://www.ebi.ac.uk/proteins/api/proteins/X'' = build_url EMBLEBIBridge ''proteins/X'' None"
    by (simp add: build_url_no_params lstrip_def)
  show ?thesis
    using make_request_404_not_retried[where srv = "const_server (simple_response 404 ''no such entry'')"
            and s = io0 and r = "simple_response 404 ''no such entry''" and t = "''no such entry''"
            and b = EMBLEBIBridge and endpoint = "''proteins/X''" and params = None
            and url = "''https://www.ebi.ac.uk/proteins/api/proteins/X''" and attempt = 0, OF _ _ _ u]
    by (simp add: const_server_def io0_def)
qed

section \<open>Dispatch\<close>

lemma setup_tools_get_protein_by_accession:
  "setup_tools ''get_protein_by_accession'' = Some get_protein_by_accession_tool"
  by (simp add: setup_tools_def registrations_def register_tool_def)

lemma setup_tools_search_proteins: "setup_tools ''search_proteins'' = Some search_proteins_tool"
  by (simp add: setup_tools_def registrations_def register_tool_def)

lemma setup_tools_unknown: "setup_tools ''get_protein_by_name'' = None"
  by (simp add: setup_tools_def registrations_def register_tool_def)

lemma text_result_Inl [simp]: "text_result (Inl e, s) = (Inl e, s)"
  by (simp add: text_result_def)

lemma text_result_Inr [simp]: "text_result (Inr j, s) = (Inr [TextContent ''text'' (json_dumps 0 j)], s)"
  by (simp add: text_result_def)

lemma get_protein_by_accession_tool_no_arguments:
  "get_protein_by_accession_tool srv b Map.empty s = (Inl (ValueError ''accession parameter is required''), s)"
  by (simp add: get_protein_by_accession_tool_def arguments_get_def truthy_def)

text \<open>
  C2. For a registered tool, whatever exception its handler raises (a validation failure or
  an error of the bridge) is caught by the global handler and returned as the single text
  block \<open>Error: <message>\<close>; the global handler itself always returns content blocks and
  never raises. Exceptions are the subclasses of \<open>Exception\<close>; a cancellation of
  the running coroutine is outside this model.
\<close>

theorem global_tool_handler_catches:
  assumes "reg tool_name = Some h"
  shows "(h srv b arguments s = (Inl e, s1) \<longrightarrow>
            global_tool_handler reg srv b tool_name arguments s =
              (Inr [TextContent ''text'' (''Error: '' @ str_exn e)], s1))
       \<and> (\<exists>blocks. fst (global_tool_handler reg srv b tool_name arguments s) = Inr blocks)"
proof -
  have body: "global_tool_handler_try reg srv b tool_name arguments s = h srv b arguments s"
    using assms by (simp add: global_tool_handler_try_def)
  obtain res s2 where h: "h srv b arguments s = (res, s2)"
    by (cases "h srv b arguments s")
  show ?thesis
    by (cases res) (simp_all add: global_tool_handler_def body h)
qed

theorem global_tool_handler_catches_witness:
  "global_tool_handler setup_tools (const_server (simple_response 404 ''no such entry'')) EMBLEBIBridge
     ''get_protein_by_accession'' Map.empty io0 =
     (Inr [TextContent ''text'' ''Error: accession parameter is required''], io0)"
  using global_tool_handler_catches[where reg = setup_tools and tool_name = "''get_protein_by_accession''"
          and h = get_protein_by_accession_tool and arguments = Map.empty and s = io0 and ?s1.0 = io0
          and srv = "const_server (simple_response 404 ''no such entry'')" and b = EMBLEBIBridge
          and e = "ValueError ''accession parameter is required''",
          OF setup_tools_get_protein_by_accession]
  by (simp add: get_protein_by_accession_tool_no_arguments)

text \<open>
  C3. For a name that is not in the registry, whatever the arguments, the global handler
  returns exactly one text block \<open>Error: Tool '<name>' not found\<close> and does not raise;
  no request is made.
\<close>

theorem global_tool_handler_unknown_tool:
  assumes "tool_name \<notin> dom reg"
  shows "global_tool_handler reg srv b tool_name arguments s =
           (Inr [TextContent ''text'' (''Error: Tool '' @ [CHR 0x27] @ tool_name @ [CHR 0x27] @ '' not found'')], s)"
  using assms by (simp add: global_tool_handler_def global_tool_handler_try_def domIff)

theorem global_tool_handler_unknown_tool_witness:
  "''get_protein_by_name'' \<notin> dom setup_tools
   \<and> global_tool_handler setup_tools (const_server (json_response JNull)) EMBLEBIBridge
       ''get_protein_by_name'' Map.empty io0 =
       (Inr [TextContent ''text'' (''Error: Tool '' @ [CHR 0x27] @ ''get_protein_by_name'' @ [CHR 0x27] @ '' not found'')], io0)"
proof -
  have absent: "''get_protein_by_name'' \<notin> dom setup_tools"
    by (simp add: domIff setup_tools_unknown)
  show ?thesis
    using global_tool_handler_unknown_tool[OF absent, of "const_server (json_response JNull)"
            EMBLEBIBridge Map.empty io0] absent
    by simp
qed

section \<open>Rate limiting\<close>

text \<open>
  While every remaining attempt is answered with 429 and the delay can be computed (no
  header, or a header that \<open>int()\<close> accepts), each attempt sleeps for that delay and the
  next one is made; after the last one the generic error is raised.
\<close>

lemma request_loop_all_429:
  assumes "n = nat (max_retries b - int attempt)"
    and "\<And>k. k < n \<Longrightarrow> srv (length (requests s) + k) url = Inr (r k) \<and> status (r k) = 429
                        \<and> retry_after_seconds b (attempt + k) (r k) = Inr (d k)"
  shows "request_loop srv b url attempt s =
           (Inl (Exception (''Failed to complete request after '' @ str_of_int (max_retries b) @ '' attempts'')),
            s\<lparr>requests := requests s @ replicate n url,
              sleeps := sleeps s @ map (\<lambda>k. of_int (d k)) [0..<n]\<rparr>)"
  using assms
proof (induction n arbitrary: attempt s r d)
  case 0
  then have "\<not> int attempt < max_retries b" by simp
  then show ?case by (simp add: request_loop_exhausted)
next
  case (Suc n)
  let ?s1 = "s\<lparr>requests := requests s @ [url], sleeps := sleeps s @ [of_int (d 0)]\<rparr>"
  from Suc.prems(1) have lt: "int attempt < max_retries b" by simp
  from Suc.prems(2)[of 0] have first: "srv (length (requests s)) url = Inr (r 0)"
      "status (r 0) = 429" "retry_after_seconds b attempt (r 0) = Inr (d 0)"
    by simp_all
  have a: "attempt_try srv b url attempt s = (Continue, ?s1)"
    using first by (intro attempt_try_429[where r = "r 0"]) simp_all
  have n: "n = nat (max_retries b - int (Suc attempt))"
    using Suc.prems(1) by simp
  have rest: "srv (length (requests ?s1) + k) url = Inr ((r \<circ> Suc) k) \<and> status ((r \<circ> Suc) k) = 429
              \<and> retry_after_seconds b (Suc attempt + k) ((r \<circ> Suc) k) = Inr ((d \<circ> Suc) k)"
    if "k < n" for k
    using Suc.prems(2)[of "Suc k"] that by simp
  have "request_loop srv b url attempt s = request_loop srv b url (Suc attempt) ?s1"
    using lt a by (rule request_loop_continue)
  also have "\<dots> = (Inl (Exception (''Failed to complete request after '' @ str_of_int (max_retries b)
                                       @ '' attempts'')),
                     ?s1\<lparr>requests := requests ?s1 @ replicate n url,
                         sleeps := sleeps ?s1 @ map (\<lambda>k. of_int ((d \<circ> Suc) k)) [0..<n]\<rparr>)"
    using Suc.IH[OF n rest] by simp
  also have "map (\<lambda>k. rat_of_int ((d \<circ> Suc) k)) [0..<n] = map (\<lambda>k. of_int (d k)) (map Suc [0..<n])"
    by simp
  finally show ?case
    by (simp add: upt_conv_Cons map_Suc_upt del: upt_Suc)
qed

lemma retry_after_seconds_header:
  "retry_after r = Some h \<Longrightarrow> retry_after_seconds b attempt r = int_of_str h"
  by (simp add: retry_after_seconds_def)

lemma retry_after_seconds_default:
  "retry_after r = None \<Longrightarrow> retry_delay b = of_int base \<Longrightarrow>
   retry_after_seconds b attempt r = Inr (base * int (attempt + 1))"
proof -
  assume r: "retry_after r = None" and b: "retry_delay b = of_int base"
  have "retry_delay b * of_nat (attempt + 1) = of_int (base * int (attempt + 1))"
    by (simp add: b)
  then have "int_of_float (retry_delay b * of_nat (attempt + 1)) = base * int (attempt + 1)"
    unfolding int_of_float_def by (simp only: floor_of_int ceiling_of_int if_cancel)
  then show ?thesis
    using r by (simp add: retry_after_seconds_def)
qed

lemma int_of_str_2: "int_of_str ''2'' = Inr 2"
  by code_simp

lemma int_of_str_http_date:
  "int_of_str ''Wed, 21 Oct 2015 07:28:00 GMT'' =
     Inl (ValueError (''invalid literal for int() with base 10: '' @ [CHR 0x27]
                      @ ''Wed, 21 Oct 2015 07:28:00 GMT'' @ [CHR 0x27]))"
  by code_simp

lemma build_url_P04637:
  "build_url EMBLEBIBridge ''proteins/P04637'' None = ''https://www.ebi.ac.uk/proteins/api/proteins/P04637''"
  by (simp add: build_url_no_params lstrip_def)

text \<open>With \<open>Retry-After: 2\<close> on every answer: three requests, three sleeps of 2, the generic error.\<close>

lemma make_request_429_retry_after_2:
  "make_request (rate_limited_server (Some ''2'')) EMBLEBIBridge ''proteins/P04637'' None io0 =
     (Inl (Exception ''Failed to complete request after 3 attempts''),
      \<lparr>requests = replicate 3 ''https://www.ebi.ac.uk/proteins/api/proteins/P04637'', sleeps = [2, 2, 2]\<rparr>)"
  unfolding make_request_def build_url_P04637
  using request_loop_all_429[where n = 3 and b = EMBLEBIBridge and attempt = 0 and s = io0
          and srv = "rate_limited_server (Some ''2'')" and d = "\<lambda>k. 2"
          and r = "\<lambda>k. \<lparr>status = 429, retry_after = Some ''2'', body_text = Inr ''Too Many Requests'',
                         body_json = Inl (ValueError ''Expecting value: line 1 column 1 (char 0)'')\<rparr>"
          and url = "''https://www.ebi.ac.uk/proteins/api/proteins/P04637''"]
  by (simp add: rate_limited_server_def retry_after_seconds_header int_of_str_2 str_of_int_3 io0_def
        upt_rec[of 0] upt_rec[of 1] upt_rec[of 2] numeral_3_eq_3)

text \<open>Without the header: sleeps of 1, 2 and 3 times the base delay.\<close>

lemma make_request_429_no_header:
  "make_request (rate_limited_server None) EMBLEBIBridge ''proteins/P04637'' None io0 =
     (Inl (Exception ''Failed to complete request after 3 attempts''),
      \<lparr>requests = replicate 3 ''https://www.ebi.ac.uk/proteins/api/proteins/P04637'', sleeps = [1, 2, 3]\<rparr>)"
  unfolding make_request_def build_url_P04637
  using request_loop_all_429[where n = 3 and b = EMBLEBIBridge and attempt = 0 and s = io0
          and srv = "rate_limited_server None" and d = "\<lambda>k. int (k + 1)"
          and r = "\<lambda>k. \<lparr>status = 429, retry_after = None, body_text = Inr ''Too Many Requests'',
                         body_json = Inl (ValueError ''Expecting value: line 1 column 1 (char 0)'')\<rparr>"
          and url = "''https://www.ebi.ac.uk/proteins/api/proteins/P04637''"]
        retry_after_seconds_default[where b = EMBLEBIBridge and base = 1]
  by (simp add: rate_limited_server_def str_of_int_3 io0_def
        upt_rec[of 0] upt_rec[of 1] upt_rec[of 2] numeral_3_eq_3)

text \<open>
  C5. A 429 whose \<open>Retry-After\<close> header is an HTTP date, which the HTTP standard allows,
  is not followed by a sleep and a retry: \<open>int()\<close> rejects the header, the
  \<open>ValueError\<close> reaches the last \<open>except\<close> clause and is raised again, and the call
  ends after one request with two attempts left.
\<close>

theorem make_request_429_http_date:
  "make_request (rate_limited_server (Some ''Wed, 21 Oct 2015 07:28:00 GMT'')) EMBLEBIBridge
     ''proteins/P04637'' None io0 =
     (Inl (ValueError (''invalid literal for int() with base 10: '' @ [CHR 0x27]
                       @ ''Wed, 21 Oct 2015 07:28:00 GMT'' @ [CHR 0x27])),
      \<lparr>requests = [''https://www.ebi.ac.uk/proteins/api/proteins/P04637''], sleeps = []\<rparr>)"
proof -
  let ?srv = "rate_limited_server (Some ''Wed, 21 Oct 2015 07:28:00 GMT'')"
  let ?u = "''https://www.ebi.ac.uk/proteins/api/proteins/P04637''"
  let ?m = "''invalid literal for int() with base 10: '' @ [CHR 0x27]
            @ ''Wed, 21 Oct 2015 07:28:00 GMT'' @ [CHR 0x27]"
  have "attempt_try ?srv EMBLEBIBridge ?u 0 io0 =
          (Raise (ValueError ?m), io0\<lparr>requests := requests io0 @ [?u]\<rparr>)"
    by (rule attempt_try_429_bad_header[where r = "\<lparr>status = 429,
            retry_after = Some ''Wed, 21 Oct 2015 07:28:00 GMT'', body_text = Inr ''Too Many Requests'',
            body_json = Inl (ValueError ''Expecting value: line 1 column 1 (char 0)'')\<rparr>"])
       (simp_all add: rate_limited_server_def retry_after_seconds_header int_of_str_http_date)
  then have "request_loop ?srv EMBLEBIBridge ?u 0 io0 =
               (Inl (ValueError ?m), io0\<lparr>requests := requests io0 @ [?u]\<rparr>)"
    by (intro request_loop_raise) simp_all
  then show ?thesis
    unfolding make_request_def build_url_P04637 by (simp add: io0_def)
qed

section \<open>Requests issued by the composite operations\<close>

lemma attempt_body_requests: "requests (snd (attempt_body b attempt r s)) = requests s"
  by (simp add: attempt_body_def asyncio_sleep_def split: sum.splits)

lemma attempt_except_requests: "requests (snd (attempt_except b attempt e s)) = requests s"
  by (simp add: attempt_except_def asyncio_sleep_def split: exn.splits)

lemma attempt_try_requests: "requests (snd (attempt_try srv b url attempt s)) = requests s @ [url]"
proof (cases "srv (length (requests s)) url")
  case (Inl e)
  then show ?thesis
    by (simp add: attempt_try_def session_get_def attempt_except_requests)
next
  case (Inr r)
  let ?s1 = "s\<lparr>requests := requests s @ [url]\<rparr>"
  obtain fl s2 where body: "attempt_body b attempt r ?s1 = (fl, s2)"
    by (cases "attempt_body b attempt r ?s1")
  then have s2: "requests s2 = requests s @ [url]"
    using attempt_body_requests[of b attempt r ?s1] by simp
  show ?thesis
    using Inr body s2 attempt_except_requests[of b attempt _ s2]
    by (cases fl) (simp_all add: attempt_try_def session_get_def)
qed

text \<open>The loop requests the same URL once per attempt made, and at least once if it runs.\<close>

lemma request_loop_requests:
  "\<exists>k. requests (snd (request_loop srv b url attempt s)) = requests s @ replicate k url
       \<and> (int attempt < max_retries b \<longrightarrow> 0 < k)"
proof (induction srv b url attempt s rule: request_loop.induct)
  case (1 srv b url attempt s)
  show ?case
  proof (cases "int attempt < max_retries b")
    case False
    then show ?thesis
      by (simp add: request_loop_exhausted)
  next
    case True
    obtain fl s1 where a: "attempt_try srv b url attempt s = (fl, s1)"
      by (cases "attempt_try srv b url attempt s")
    then have s1: "requests s1 = requests s @ [url]"
      using attempt_try_requests[of srv b url attempt s] by simp
    show ?thesis
    proof (cases fl)
      case (Return j)
      then have "request_loop srv b url attempt s = (Inr j, s1)"
        using True a by (simp add: request_loop_return)
      then have "requests (snd (request_loop srv b url attempt s)) = requests s @ replicate 1 url"
        using s1 by simp
      then show ?thesis using True by blast
    next
      case (Raise e)
      then have "request_loop srv b url attempt s = (Inl e, s1)"
        using True a by (simp add: request_loop_raise)
      then have "requests (snd (request_loop srv b url attempt s)) = requests s @ replicate 1 url"
        using s1 by simp
      then show ?thesis using True by blast
    next
      case Continue
      then have step: "request_loop srv b url attempt s = request_loop srv b url (Suc attempt) s1"
        using True a by (simp add: request_loop_continue)
      from "1.IH"[OF True a[symmetric] Continue]
      obtain k where "requests (snd (request_loop srv b url (attempt + 1) s1)) = requests s1 @ replicate k url"
        by blast
      then have "requests (snd (request_loop srv b url attempt s)) = requests s @ replicate (Suc k) url"
        using step s1 by (simp add: replicate_app_Cons_same)
      then show ?thesis using True by blast
    qed
  qed
qed

lemma make_request_first_request:
  assumes "0 < max_retries b"
  shows "\<exists>rest. requests (snd (make_request srv b endpoint params s)) =
                  requests s @ build_url b endpoint params # rest"
proof -
  obtain k where k: "requests (snd (make_request srv b endpoint params s)) =
                       requests s @ replicate k (build_url b endpoint params)" "0 < k"
    using request_loop_requests[of srv b "build_url b endpoint params" 0 s] assms
    by (auto simp: make_request_def)
  then obtain k' where "k = Suc k'" by (cases k) simp_all
  then show ?thesis using k by simp
qed

lemma make_request_requests_prefix:
  "\<exists>more. requests (snd (make_request srv b endpoint params s)) = requests s @ more"
  using request_loop_requests[of srv b "build_url b endpoint params" 0 s]
  by (auto simp: make_request_def)

lemma find_protein_accession_first_request:
  assumes "0 < max_retries b" and "find_protein_accession_params gene_name organism = Inr params"
  shows "\<exists>rest. requests (snd (find_protein_accession srv b gene_name organism s)) =
                  requests s @ build_url b ''proteins'' (Some params) # rest"
proof -
  obtain res s1 where first: "make_request srv b ''proteins'' (Some params) s = (res, s1)"
    by (cases "make_request srv b ''proteins'' (Some params) s")
  obtain rest where rest: "requests s1 = requests s @ build_url b ''proteins'' (Some params) # rest"
    using make_request_first_request[OF assms(1), of srv "''proteins''" "Some params" s] first by auto
  show ?thesis
  proof (cases res)
    case (Inr result)
    then show ?thesis
      using assms(2) first rest by (simp add: find_protein_accession_def)
  next
    case (Inl e)
    let ?fallback = "Some (dict_set (dict_pop params ''gene'') ''protein'' gene_name)"
    obtain more where "requests (snd (make_request srv b ''proteins'' ?fallback s1)) = requests s1 @ more"
      using make_request_requests_prefix by blast
    then show ?thesis
      using Inl assms(2) first rest by (simp add: find_protein_accession_def)
  qed
qed

lemma lower_organism_map_key:
  "map_of organism_map organism = Some taxid \<Longrightarrow> lower organism = organism"
  by (auto simp: organism_map_def lower_def lower_char_def code_point_def split: if_splits)

text \<open>
  C7. The query that \<open>find_protein_accession\<close> builds for an organism given as a string:
  if the lower-cased name is in the lookup table (in particular if the name itself is, as
  for \<open>mouse\<close>), the query has \<open>taxid\<close> set to the mapped identifier and no
  \<open>organism\<close> key; otherwise it has \<open>organism\<close> set to the string as given and no
  \<open>taxid\<close> key. The first request goes to the URL built from that query.
\<close>

theorem find_protein_accession_resolves_organism:
  "\<exists>params.
     find_protein_accession_params gene_name (JStr organism) = Inr params
     \<and> (\<forall>taxid. map_of organism_map organism = Some taxid \<or> map_of organism_map (lower organism) = Some taxid
          \<longrightarrow> map_of params ''taxid'' = Some (JStr taxid) \<and> ''organism'' \<notin> fst ` set params)
     \<and> (map_of organism_map (lower organism) = None
          \<longrightarrow> map_of params ''organism'' = Some (JStr organism) \<and> ''taxid'' \<notin> fst ` set params)
     \<and> (0 < max_retries b
          \<longrightarrow> (\<exists>rest. requests (snd (find_protein_accession srv b gene_name (JStr organism) s)) =
                        requests s @ build_url b ''proteins'' (Some params) # rest))"
proof (cases "map_of organism_map (lower organism)")
  case None
  let ?params = "[(''offset'', JInt 0), (''size'', JInt 10), (''organism'', JStr organism), (''gene'', gene_name)]"
  have p: "find_protein_accession_params gene_name (JStr organism) = Inr ?params"
    using None by (simp add: find_protein_accession_params_def str_lower_def)
  have no_key: "map_of organism_map organism \<noteq> Some taxid" for taxid
    using None lower_organism_map_key[of organism taxid] by auto
  show ?thesis
    using p None no_key find_protein_accession_first_request[OF _ p, of b srv s]
    by (intro exI[of _ ?params]) auto
next
  case (Some t)
  let ?params = "[(''offset'', JInt 0), (''size'', JInt 10), (''taxid'', JStr t), (''gene'', gene_name)]"
  have p: "find_protein_accession_params gene_name (JStr organism) = Inr ?params"
    using Some by (simp add: find_protein_accession_params_def str_lower_def)
  have key: "taxid = t" if "map_of organism_map organism = Some taxid" for taxid
    using that Some lower_organism_map_key[of organism taxid] by simp
  show ?thesis
    using p Some key find_protein_accession_first_request[OF _ p, of b srv s]
    by (intro exI[of _ ?params]) auto
qed

lemma find_params_mouse:
  "find_protein_accession_params (JStr ''insulin'') (JStr ''mouse'') =
     Inr [(''offset'', JInt 0), (''size'', JInt 10), (''taxid'', JStr ''10090''), (''gene'', JStr ''insulin'')]"
  by code_simp

lemma find_params_zebrafish:
  "find_protein_accession_params (JStr ''insulin'') (JStr ''zebrafish'') =
     Inr [(''offset'', JInt 0), (''size'', JInt 10), (''organism'', JStr ''zebrafish''),
          (''gene'', JStr ''insulin'')]"
  by code_simp

lemma build_url_mouse:
  "build_url EMBLEBIBridge ''proteins''
     (Some [(''offset'', JInt 0), (''size'', JInt 10), (''taxid'', JStr ''10090''), (''gene'', JStr ''insulin'')]) =
   ''https://www.ebi.ac.uk/proteins/api/proteins?offset=0&size=10&taxid=10090&gene=insulin''"
  by code_simp

lemma build_url_zebrafish:
  "build_url EMBLEBIBridge ''proteins''
     (Some [(''offset'', JInt 0), (''size'', JInt 10), (''organism'', JStr ''zebrafish''),
            (''gene'', JStr ''insulin'')]) =
   ''https://www.ebi.ac.uk/proteins/api/proteins?offset=0&size=10&organism=zebrafish&gene=insulin''"
  by code_simp

lemma organism_map_mouse: "map_of organism_map ''mouse'' = Some ''10090''"
  by (simp add: organism_map_def)

lemma organism_map_zebrafish: "map_of organism_map (lower ''zebrafish'') = None"
  by code_simp

theorem find_protein_accession_resolves_organism_witness:
  "(\<exists>rest. requests (snd (find_protein_accession (const_server (json_response (JList []))) EMBLEBIBridge
                           (JStr ''insulin'') (JStr ''mouse'') io0)) =
      ''https://www.ebi.ac.uk/proteins/api/proteins?offset=0&size=10&taxid=10090&gene=insulin'' # rest)
   \<and> (\<exists>rest. requests (snd (find_protein_accession (const_server (json_response (JList []))) EMBLEBIBridge
                           (JStr ''insulin'') (JStr ''zebrafish'') io0)) =
      ''https://www.ebi.ac.uk/proteins/api/proteins?offset=0&size=10&organism=zebrafish&gene=insulin'' # rest)"
proof -
  let ?srv = "const_server (json_response (JList []))"
  obtain params where mouse:
      "find_protein_accession_params (JStr ''insulin'') (JStr ''mouse'') = Inr params"
      "map_of params ''taxid'' = Some (JStr ''10090'')" "''organism'' \<notin> fst ` set params"
      "\<exists>rest. requests (snd (find_protein_accession ?srv EMBLEBIBridge (JStr ''insulin'') (JStr ''mouse'') io0)) =
              requests io0 @ build_url EMBLEBIBridge ''proteins'' (Some params) # rest"
    using find_protein_accession_resolves_organism[of "JStr ''insulin''" "''mouse''" EMBLEBIBridge ?srv io0]
          organism_map_mouse
    by auto
  obtain params' where zebrafish:
      "find_protein_accession_params (JStr ''insulin'') (JStr ''zebrafish'') = Inr params'"
      "map_of params' ''organism'' = Some (JStr ''zebrafish'')" "''taxid'' \<notin> fst ` set params'"
      "\<exists>rest. requests (snd (find_protein_accession ?srv EMBLEBIBridge (JStr ''insulin'') (JStr ''zebrafish'') io0)) =
              requests io0 @ build_url EMBLEBIBridge ''proteins'' (Some params') # rest"
    using find_protein_accession_resolves_organism[of "JStr ''insulin''" "''zebrafish''" EMBLEBIBridge ?srv io0]
          organism_map_zebrafish
    by auto
  have pm: "params = [(''offset'', JInt 0), (''size'', JInt 10), (''taxid'', JStr ''10090''),
                       (''gene'', JStr ''insulin'')]"
    using mouse(1) by (simp add: find_params_mouse)
  have pz: "params' = [(''offset'', JInt 0), (''size'', JInt 10), (''organism'', JStr ''zebrafish''),
                        (''gene'', JStr ''insulin'')]"
    using zebrafish(1) by (simp add: find_params_zebrafish)
  show ?thesis
    using mouse(4) zebrafish(4) unfolding pm pz
    by (simp add: build_url_mouse build_url_zebrafish)
qed

section \<open>The protein summary\<close>

lemma find_protein_accession_found:
  assumes "find_protein_accession_params gene_name organism = Inr params" and "0 < max_retries b"
    and "srv (length (requests s)) (build_url b ''proteins'' (Some params)) = Inr r"
    and "status r = 200" and "body_json r = Inr j"
  shows "find_protein_accession srv b gene_name organism s =
           (Inr j, s\<lparr>requests := requests s @ [build_url b ''proteins'' (Some params)]\<rparr>)"
  using assms(1) make_request_first_200[of b srv s "''proteins''" "Some params" r j] assms(2-5)
  by (simp add: find_protein_accession_def)

lemma find_protein_accession_not_found:
  assumes "find_protein_accession_params gene_name organism = Inr params" and "0 < max_retries b"
    and "\<And>n url. srv n url = Inr r" and "status r = 404" and "body_text r = Inr t"
  shows "find_protein_accession srv b gene_name organism s =
           (Inl (ValueError (''Resource not found (404): '' @ t)),
            s\<lparr>requests := requests s @ [build_url b ''proteins'' (Some params),
                 build_url b ''proteins'' (Some (dict_set (dict_pop params ''gene'') ''protein'' gene_name))]\<rparr>)"
proof -
  let ?u1 = "build_url b ''proteins'' (Some params)"
  let ?s1 = "s\<lparr>requests := requests s @ [?u1]\<rparr>"
  have first: "make_request srv b ''proteins'' (Some params) s =
                 (Inl (ValueError (''Resource not found (404): '' @ t)), ?s1)"
    using assms by (intro make_request_first_404[where r = r]) simp_all
  have second: "make_request srv b ''proteins'' fallback ?s1 =
                  (Inl (ValueError (''Resource not found (404): '' @ t)),
                   ?s1\<lparr>requests := requests ?s1 @ [build_url b ''proteins'' fallback]\<rparr>)" for fallback
    using assms by (intro make_request_first_404[where r = r]) simp_all
  show ?thesis
    using assms(1) first second by (simp add: find_protein_accession_def)
qed

lemma get_protein_summary_try_dict:
  "get_protein_summary_try srv b gene_name organism s = (Inr result, s') \<Longrightarrow> \<exists>d. result = JDict d"
  by (auto simp: get_protein_summary_try_def split: prod.splits sum.splits bool.splits if_splits)

lemma no_result_falsy: "\<not> truthy search_result \<Longrightarrow> no_result search_result = Inr True"
  by (simp add: no_result_def)

lemma no_result_first_dict:
  "truthy search_result \<Longrightarrow> first_result search_result = Inr (JDict protein) \<Longrightarrow>
   no_result search_result = Inr False"
  by (cases search_result) (auto simp: no_result_def truthy_def first_result_def split: list.splits)

text \<open>
  C8. When the search has produced an entry with an accession and the features call fails,
  the summary is still returned: it holds the four basic fields, \<open>features_error\<close> with
  the message of the failure, and then \<open>interactions\<close> with the payload of the
  interactions call, or \<open>interactions_error\<close> with its message if that call fails too.
  Neither failure is raised.
\<close>

theorem get_protein_summary_partial_failure:
  assumes "find_protein_accession srv b gene_name organism s = (Inr search_result, s1)"
    and "no_result search_result = Inr False"
    and "first_result search_result = Inr protein"
    and "get_accession protein = Inr accession" and "truthy accession"
    and "get_features_by_accession srv b accession s1 = (Inl e, s2)"
  shows "(get_protein_interactions srv b accession s2 = (Inr interactions, s3) \<longrightarrow>
            get_protein_summary srv b gene_name organism s =
              (Inr (JDict [(''gene_name'', gene_name), (''organism'', organism), (''accession'', accession),
                           (''basic_info'', protein), (''features_error'', JStr (str_exn e)),
                           (''interactions'', interactions)]), s3))
       \<and> (get_protein_interactions srv b accession s2 = (Inl e', s3) \<longrightarrow>
            get_protein_summary srv b gene_name organism s =
              (Inr (JDict [(''gene_name'', gene_name), (''organism'', organism), (''accession'', accession),
                           (''basic_info'', protein), (''features_error'', JStr (str_exn e)),
                           (''interactions_error'', JStr (str_exn e'))]), s3))"
  using assms
  by (simp add: get_protein_summary_def get_protein_summary_try_def add_features_def add_interactions_def)

lemma find_params_p53:
  "find_protein_accession_params (JStr ''p53'') (JStr ''human'') =
     Inr [(''offset'', JInt 0), (''size'', JInt 10), (''taxid'', JStr ''9606''), (''gene'', JStr ''p53'')]"
  by code_simp

lemma build_url_p53:
  "build_url EMBLEBIBridge ''proteins''
     (Some [(''offset'', JInt 0), (''size'', JInt 10), (''taxid'', JStr ''9606''), (''gene'', JStr ''p53'')]) =
   ''https://www.ebi.ac.uk/proteins/api/proteins?offset=0&size=10&taxid=9606&gene=p53''"
  by code_simp

lemma build_url_p53_fallback:
  "build_url EMBLEBIBridge ''proteins''
     (Some (dict_set (dict_pop [(''offset'', JInt 0), (''size'', JInt 10), (''taxid'', JStr ''9606''),
                                (''gene'', JStr ''p53'')] ''gene'') ''protein'' (JStr ''p53''))) =
   ''https://www.ebi.ac.uk/proteins/api/proteins?offset=0&size=10&taxid=9606&protein=p53''"
  by code_simp

lemma str_JStr [simp]: "str (JStr x) = x"
  by (simp add: str_def)

lemma build_url_features_P04637:
  "build_url EMBLEBIBridge ''features/P04637'' None = ''https://www.ebi.ac.uk/proteins/api/features/P04637''"
  by (simp add: build_url_no_params lstrip_def)

lemma build_url_interaction_P04637:
  "build_url EMBLEBIBridge ''proteins/interaction/P04637'' None =
     ''https://www.ebi.ac.uk/proteins/api/proteins/interaction/P04637''"
  by (simp add: build_url_no_params lstrip_def)

theorem get_protein_summary_partial_failure_witness:
  "get_protein_summary summary_server EMBLEBIBridge (JStr ''p53'') (JStr ''human'') io0 =
     (Inr (JDict [(''gene_name'', JStr ''p53''), (''organism'', JStr ''human''),
                  (''accession'', JStr ''P04637''),
                  (''basic_info'', JDict [(''accession'', JStr ''P04637''), (''id'', JStr ''P53_HUMAN'')]),
                  (''features_error'', JStr ''Resource not found (404): no features''),
                  (''interactions'', JList [])]),
      \<lparr>requests = [''https://www.ebi.ac.uk/proteins/api/proteins?offset=0&size=10&taxid=9606&gene=p53'',
                    ''https://www.ebi.ac.uk/proteins/api/features/P04637'',
                    ''https://www.ebi.ac.uk/proteins/api/proteins/interaction/P04637''],
         sleeps = []\<rparr>)"
proof -
  let ?protein = "JDict [(''accession'', JStr ''P04637''), (''id'', JStr ''P53_HUMAN'')]"
  let ?u1 = "''https://www.ebi.ac.uk/proteins/api/proteins?offset=0&size=10&taxid=9606&gene=p53''"
  let ?u2 = "''https://www.ebi.ac.uk/proteins/api/features/P04637''"
  let ?u3 = "''https://www.ebi.ac.uk/proteins/api/proteins/interaction/P04637''"
  let ?s1 = "io0\<lparr>requests := requests io0 @ [?u1]\<rparr>"
  let ?s2 = "?s1\<lparr>requests := requests ?s1 @ [?u2]\<rparr>"
  let ?s3 = "?s2\<lparr>requests := requests ?s2 @ [?u3]\<rparr>"
  have search: "find_protein_accession summary_server EMBLEBIBridge (JStr ''p53'') (JStr ''human'') io0 =
                  (Inr (JList [?protein]), ?s1)"
    using find_protein_accession_found[OF find_params_p53, of EMBLEBIBridge summary_server io0
            "json_response (JList [?protein])" "JList [?protein]"]
    by (simp add: build_url_p53 summary_server_def)
  have features: "get_features_by_accession summary_server EMBLEBIBridge (JStr ''P04637'') ?s1 =
                    (Inl (ValueError ''Resource not found (404): no features''), ?s2)"
    unfolding get_features_by_accession_def
    using make_request_first_404[of EMBLEBIBridge summary_server ?s1 "''features/P04637''"
            None "simple_response 404 ''no features''" "''no features''"]
    by (simp add: build_url_features_P04637 summary_server_def)
  have interactions: "get_protein_interactions summary_server EMBLEBIBridge (JStr ''P04637'') ?s2 =
                    (Inr (JList []), ?s3)"
    unfolding get_protein_interactions_def
    using make_request_first_200[of EMBLEBIBridge summary_server ?s2
            "''proteins/interaction/P04637''" None "json_response (JList [])" "JList []"]
    by (simp add: build_url_interaction_P04637 summary_server_def)
  have "get_protein_summary summary_server EMBLEBIBridge (JStr ''p53'') (JStr ''human'') io0 =
          (Inr (JDict [(''gene_name'', JStr ''p53''), (''organism'', JStr ''human''),
                       (''accession'', JStr ''P04637''), (''basic_info'', ?protein),
                       (''features_error'', JStr (str_exn (ValueError ''Resource not found (404): no features''))),
                       (''interactions'', JList [])]), ?s3)"
    using get_protein_summary_partial_failure[OF search _ _ _ _ features,
            where protein = ?protein and interactions = "JList []" and ?s3.0 = ?s3] interactions
    by (simp add: no_result_def first_result_def get_accession_def dict_get_def truthy_def)
  then show ?thesis
    by (simp add: io0_def)
qed

text \<open>
  C10. \<open>get_protein_summary\<close> always returns a dictionary and never raises. When the
  accession search fails, when its result is empty (falsy), or when the first entry is a
  dictionary without a usable accession, the dictionary returned has the single field
  \<open>error\<close>, a string.
\<close>

theorem get_protein_summary_never_raises:
  "(\<exists>d. fst (get_protein_summary srv b gene_name organism s) = Inr (JDict d))
   \<and> (find_protein_accession srv b gene_name organism s = (Inl e, s1) \<longrightarrow>
        get_protein_summary srv b gene_name organism s =
          (Inr (JDict [(''error'', JStr (''Failed to get protein summary: '' @ str_exn e))]), s1))
   \<and> (find_protein_accession srv b gene_name organism s = (Inr search_result, s1)
        \<and> \<not> truthy search_result \<longrightarrow>
        get_protein_summary srv b gene_name organism s =
          (Inr (JDict [(''error'', JStr (''No protein found for '' @ str gene_name @ '' in '' @ str organism))]),
           s1))
   \<and> (find_protein_accession srv b gene_name organism s = (Inr search_result, s1)
        \<and> truthy search_result \<and> first_result search_result = Inr (JDict protein)
        \<and> \<not> truthy (dict_get protein ''accession'') \<longrightarrow>
        get_protein_summary srv b gene_name organism s =
          (Inr (JDict [(''error'', JStr ''No accession found in search results'')]), s1))"
proof -
  obtain res s' where t: "get_protein_summary_try srv b gene_name organism s = (res, s')"
    by (cases "get_protein_summary_try srv b gene_name organism s")
  have total: "\<exists>d. fst (get_protein_summary srv b gene_name organism s) = Inr (JDict d)"
  proof (cases res)
    case (Inl e)
    then show ?thesis using t by (simp add: get_protein_summary_def)
  next
    case (Inr result)
    then obtain d where "result = JDict d"
      using t get_protein_summary_try_dict by blast
    then show ?thesis using t Inr by (simp add: get_protein_summary_def)
  qed
  have failed: "get_protein_summary srv b gene_name organism s =
          (Inr (JDict [(''error'', JStr (''Failed to get protein summary: '' @ str_exn e))]), s1)"
    if "find_protein_accession srv b gene_name organism s = (Inl e, s1)"
    using that by (simp add: get_protein_summary_def get_protein_summary_try_def)
  have empty: "get_protein_summary srv b gene_name organism s =
          (Inr (JDict [(''error'', JStr (''No protein found for '' @ str gene_name @ '' in '' @ str organism))]),
           s1)"
    if "find_protein_accession srv b gene_name organism s = (Inr search_result, s1)"
      and "\<not> truthy search_result"
    using that by (simp add: get_protein_summary_def get_protein_summary_try_def no_result_falsy)
  have no_accession: "get_protein_summary srv b gene_name organism s =
          (Inr (JDict [(''error'', JStr ''No accession found in search results'')]), s1)"
    if "find_protein_accession srv b gene_name organism s = (Inr search_result, s1)"
      and "truthy search_result" and "first_result search_result = Inr (JDict protein)"
      and "\<not> truthy (dict_get protein ''accession'')"
    using that no_result_first_dict[of search_result protein]
    by (simp add: get_protein_summary_def get_protein_summary_try_def get_accession_def)
  from total failed empty no_accession show ?thesis by blast
qed

theorem get_protein_summary_never_raises_witness:
  "get_protein_summary (const_server (simple_response 404 ''nothing'')) EMBLEBIBridge
       (JStr ''p53'') (JStr ''human'') io0 =
     (Inr (JDict [(''error'', JStr ''Failed to get protein summary: Resource not found (404): nothing'')]),
      \<lparr>requests = [''https://www.ebi.ac.uk/proteins/api/proteins?offset=0&size=10&taxid=9606&gene=p53'',
                    ''https://www.ebi.ac.uk/proteins/api/proteins?offset=0&size=10&taxid=9606&protein=p53''],
         sleeps = []\<rparr>)
   \<and> get_protein_summary (const_server (json_response (JList []))) EMBLEBIBridge
       (JStr ''p53'') (JStr ''human'') io0 =
     (Inr (JDict [(''error'', JStr ''No protein found for p53 in human'')]),
      \<lparr>requests = [''https://www.ebi.ac.uk/proteins/api/proteins?offset=0&size=10&taxid=9606&gene=p53''],
         sleeps = []\<rparr>)
   \<and> get_protein_summary (const_server (json_response (JList [JDict [(''id'', JStr ''P53_HUMAN'')]])))
       EMBLEBIBridge (JStr ''p53'') (JStr ''human'') io0 =
     (Inr (JDict [(''error'', JStr ''No accession found in search results'')]),
      \<lparr>requests = [''https://www.ebi.ac.uk/proteins/api/proteins?offset=0&size=10&taxid=9606&gene=p53''],
         sleeps = []\<rparr>)"
proof -
  let ?u1 = "''https://www.ebi.ac.uk/proteins/api/proteins?offset=0&size=10&taxid=9606&gene=p53''"
  let ?u2 = "''https://www.ebi.ac.uk/proteins/api/proteins?offset=0&size=10&taxid=9606&protein=p53''"
  let ?s1 = "io0\<lparr>requests := requests io0 @ [?u1]\<rparr>"
  let ?s2 = "io0\<lparr>requests := requests io0 @ [?u1, ?u2]\<rparr>"
  let ?entry = "[(''id'', JStr ''P53_HUMAN'')]"
  have a: "find_protein_accession (const_server (simple_response 404 ''nothing'')) EMBLEBIBridge
             (JStr ''p53'') (JStr ''human'') io0 =
             (Inl (ValueError (''Resource not found (404): '' @ ''nothing'')), ?s2)"
    using find_protein_accession_not_found[OF find_params_p53, of EMBLEBIBridge
            "const_server (simple_response 404 ''nothing'')" "simple_response 404 ''nothing''" "''nothing''" io0]
    by (simp add: build_url_p53 build_url_p53_fallback const_server_def)
  have b: "find_protein_accession (const_server (json_response (JList []))) EMBLEBIBridge
             (JStr ''p53'') (JStr ''human'') io0 = (Inr (JList []), ?s1)"
    using find_protein_accession_found[OF find_params_p53, of EMBLEBIBridge
            "const_server (json_response (JList []))" io0 "json_response (JList [])" "JList []"]
    by (simp add: build_url_p53 const_server_def)
  have c: "find_protein_accession (const_server (json_response (JList [JDict ?entry]))) EMBLEBIBridge
             (JStr ''p53'') (JStr ''human'') io0 = (Inr (JList [JDict ?entry]), ?s1)"
    using find_protein_accession_found[OF find_params_p53, of EMBLEBIBridge
            "const_server (json_response (JList [JDict ?entry]))" io0
            "json_response (JList [JDict ?entry])" "JList [JDict ?entry]"]
    by (simp add: build_url_p53 const_server_def)
  have ra: "get_protein_summary (const_server (simple_response 404 ''nothing'')) EMBLEBIBridge
              (JStr ''p53'') (JStr ''human'') io0 =
              (Inr (JDict [(''error'', JStr (''Failed to get protein summary: ''
                     @ str_exn (ValueError (''Resource not found (404): '' @ ''nothing''))))]), ?s2)"
    using get_protein_summary_never_raises[of "const_server (simple_response 404 ''nothing'')" EMBLEBIBridge
            "JStr ''p53''" "JStr ''human''" io0 "ValueError (''Resource not found (404): '' @ ''nothing'')" ?s2] a
    by blast
  have rb: "get_protein_summary (const_server (json_response (JList []))) EMBLEBIBridge
              (JStr ''p53'') (JStr ''human'') io0 =
              (Inr (JDict [(''error'', JStr (''No protein found for '' @ str (JStr ''p53'') @ '' in ''
                     @ str (JStr ''human'')))]), ?s1)"
    using get_protein_summary_never_raises[of "const_server (json_response (JList []))" EMBLEBIBridge
            "JStr ''p53''" "JStr ''human''" io0 _ ?s1 "JList []"] b
    by (simp add: truthy_def)
  have rc: "get_protein_summary (const_server (json_response (JList [JDict ?entry]))) EMBLEBIBridge
              (JStr ''p53'') (JStr ''human'') io0 =
              (Inr (JDict [(''error'', JStr ''No accession found in search results'')]), ?s1)"
    using get_protein_summary_never_raises[of "const_server (json_response (JList [JDict ?entry]))"
            EMBLEBIBridge "JStr ''p53''" "JStr ''human''" io0 _ ?s1 "JList [JDict ?entry]" ?entry] c
    by (simp add: truthy_def first_result_def dict_get_def)
  show ?thesis
    using ra rb rc by (simp add: io0_def)
qed

section \<open>The request URL\<close>

lemma hex_upper_digits: "list_all always_safe ''0123456789ABCDEF''"
  by code_simp

lemma always_safe_hex_upper: "always_safe (hex_upper d)"
proof -
  have "d mod 16 < length ''0123456789ABCDEF''" by simp
  then have "''0123456789ABCDEF'' ! (d mod 16) \<in> set ''0123456789ABCDEF''"
    by (rule nth_mem)
  then show ?thesis
    using hex_upper_digits unfolding hex_upper_def list_all_iff by blast
qed

lemma is_escaped_percent_byte: "is_escaped (percent_byte n)"
  by (simp add: is_escaped_def percent_byte_def escaped_char_def always_safe_hex_upper)

lemma is_escaped_append [simp]: "is_escaped (x @ y) \<longleftrightarrow> is_escaped x \<and> is_escaped y"
  by (simp add: is_escaped_def)

lemma is_escaped_concat: "(\<And>x. x \<in> set xs \<Longrightarrow> is_escaped x) \<Longrightarrow> is_escaped (concat xs)"
  by (induction xs) (simp_all add: is_escaped_def)

lemma is_escaped_quote_plus_char: "is_escaped (quote_plus_char c)"
proof -
  have "is_escaped (concat (map percent_byte (utf8_bytes c)))"
    by (rule is_escaped_concat) (auto simp: is_escaped_percent_byte)
  then show ?thesis
    by (simp add: quote_plus_char_def is_escaped_def escaped_char_def)
qed

lemma is_escaped_quote_plus: "is_escaped (quote_plus x)"
  unfolding quote_plus_def by (rule is_escaped_concat) (auto simp: is_escaped_quote_plus_char)

lemma lstrip_no_leading: "c \<notin> set (take 1 (lstrip c x))"
proof (cases "lstrip c x")
  case Nil
  then show ?thesis by simp
next
  case (Cons y ys)
  then have "y \<noteq> c"
    unfolding lstrip_def using hd_dropWhile[of "\<lambda>x. x = c" x] by auto
  then show ?thesis using Cons by simp
qed

lemma rstrip_no_trailing: "c \<notin> set (take 1 (rev (rstrip c x)))"
  using lstrip_no_leading[of c "rev x"] by (simp add: rstrip_def lstrip_def)

text \<open>
  C9 (counterexample). A path parameter reaches the URL as it is given: an accession with a
  space and a question mark is not escaped.
\<close>

theorem build_url_path_not_escaped:
  "build_url EMBLEBIBridge (''proteins/'' @ str (JStr ''P04637 v2?'')) None =
     ''https://www.ebi.ac.uk/proteins/api/proteins/'' @ ''P04637 v2?''
   \<and> \<not> is_escaped ''P04637 v2?''
   \<and> quote_plus ''P04637 v2?'' = ''P04637+v2%3F''"
proof -
  have "build_url EMBLEBIBridge (''proteins/'' @ str (JStr ''P04637 v2?'')) None =
          ''https://www.ebi.ac.uk/proteins/api/proteins/'' @ ''P04637 v2?''"
    by (simp add: build_url_no_params lstrip_def)
  moreover have "\<not> is_escaped ''P04637 v2?''"
    by code_simp
  moreover have "quote_plus ''P04637 v2?'' = ''P04637+v2%3F''"
    by code_simp
  ultimately show ?thesis by blast
qed

text \<open>
  C9 (amended). The URL is the base URL without trailing slashes, one slash, the path
  without leading slashes and otherwise as given (it is not escaped), and, if a non-empty
  parameter mapping is passed, a question mark and the parameters whose value is not
  \<open>None\<close>, each as \<open>key=value\<close> with key and value escaped by \<open>quote_plus\<close>,
  joined by \<open>&\<close>. Escaped text holds unreserved characters, \<open>%\<close> and \<open>+\<close>
  only. Every request of the call goes to this URL.
\<close>

theorem build_url_joins_and_escapes_query:
  "build_url b endpoint params =
     rstrip CHR ''/'' (base_url b) @ ''/'' @ lstrip CHR ''/'' endpoint
     @ (case params of
          None \<Rightarrow> []
        | Some ps \<Rightarrow>
            if ps = [] then []
            else ''?'' @ join ''&'' (map (\<lambda>kv. quote_plus (fst kv) @ ''='' @ quote_plus (str (snd kv)))
                                       (filter (\<lambda>kv. snd kv \<noteq> JNull) ps)))
   \<and> CHR ''/'' \<notin> set (take 1 (rev (rstrip CHR ''/'' (base_url b))))
   \<and> CHR ''/'' \<notin> set (take 1 (lstrip CHR ''/'' endpoint))
   \<and> is_escaped (quote_plus x)
   \<and> (\<exists>k. requests (snd (make_request srv b endpoint params s)) =
              requests s @ replicate k (build_url b endpoint params))"
proof -
  have "\<exists>k. requests (snd (make_request srv b endpoint params s)) =
              requests s @ replicate k (build_url b endpoint params)"
    using request_loop_requests[of srv b "build_url b endpoint params" 0 s]
    by (auto simp: make_request_def)
  then show ?thesis
    using rstrip_no_trailing[of "CHR ''/''" "base_url b"] lstrip_no_leading[of "CHR ''/''" endpoint]
          is_escaped_quote_plus[of x]
    by (simp add: build_url_def urlencode_def split: option.splits)
qed

lemma quote_plus_protein: "quote_plus ''protein'' = ''protein''"
  by code_simp

lemma quote_plus_size: "quote_plus ''size'' = ''size''"
  by code_simp

lemma quote_plus_value: "quote_plus ''tumor & p53/TP53'' = ''tumor+%26+p53%2FTP53''"
  by code_simp

lemma quote_plus_5: "quote_plus (str (JInt 5)) = ''5''"
  by code_simp

lemma lstrip_proteins: "lstrip CHR ''/'' ''/proteins'' = ''proteins''"
  by (simp add: lstrip_def)

theorem build_url_joins_and_escapes_query_witness:
  "build_url EMBLEBIBridge ''/proteins''
     (Some [(''protein'', JStr ''tumor & p53/TP53''), (''taxid'', JNull), (''size'', JInt 5)]) =
   ''https://www.ebi.ac.uk/proteins/api/proteins?protein=tumor+%26+p53%2FTP53&size=5''"
  using build_url_joins_and_escapes_query[of EMBLEBIBridge "''/proteins''"
          "Some [(''protein'', JStr ''tumor & p53/TP53''), (''taxid'', JNull), (''size'', JInt 5)]"]
  by (simp add: quote_plus_protein quote_plus_size quote_plus_value quote_plus_5 lstrip_proteins)

section \<open>Validation of required arguments\<close>

lemma setup_tools_lookup:
  "setup_tools ''get_protein_summary'' = Some get_protein_summary_tool"
  "setup_tools ''find_protein_accession'' = Some find_protein_accession_tool"
  "setup_tools ''search_proteins'' = Some search_proteins_tool"
  "setup_tools ''get_protein_by_accession'' = Some get_protein_by_accession_tool"
  "setup_tools ''get_protein_interactions'' = Some get_protein_interactions_tool"
  "setup_tools ''get_protein_isoforms'' = Some get_protein_isoforms_tool"
  "setup_tools ''search_features'' = Some search_features_tool"
  "setup_tools ''get_features_by_accession'' = Some get_features_by_accession_tool"
  "setup_tools ''get_features_by_type'' = Some get_features_by_type_tool"
  "setup_tools ''search_variations'' = Some search_variations_tool"
  "setup_tools ''get_variations_by_accession'' = Some get_variations_by_accession_tool"
  "setup_tools ''get_variations_by_dbsnp'' = Some get_variations_by_dbsnp_tool"
  "setup_tools ''search_antigens'' = Some search_antigens_tool"
  "setup_tools ''get_antigen_by_accession'' = Some get_antigen_by_accession_tool"
  "setup_tools ''search_epitopes'' = Some search_epitopes_tool"
  "setup_tools ''get_epitope_by_accession'' = Some get_epitope_by_accession_tool"
  "setup_tools ''search_proteomics'' = Some search_proteomics_tool"
  "setup_tools ''get_proteomics_by_accession'' = Some get_proteomics_by_accession_tool"
  "setup_tools ''get_proteomics_species'' = Some get_proteomics_species_tool"
  "setup_tools ''search_proteomes'' = Some search_proteomes_tool"
  "setup_tools ''get_proteome_by_upid'' = Some get_proteome_by_upid_tool"
  "setup_tools ''get_proteome_proteins'' = Some get_proteome_proteins_tool"
  "setup_tools ''get_taxonomy_by_id'' = Some get_taxonomy_by_id_tool"
  "setup_tools ''get_taxonomy_lineage'' = Some get_taxonomy_lineage_tool"
  "setup_tools ''get_taxonomy_children'' = Some get_taxonomy_children_tool"
  "setup_tools ''search_coordinates'' = Some search_coordinates_tool"
  "setup_tools ''get_coordinates_by_accession'' = Some get_coordinates_by_accession_tool"
  "setup_tools ''search_uniparc'' = Some search_uniparc_tool"
  "setup_tools ''get_uniparc_by_upi'' = Some get_uniparc_by_upi_tool"
  "setup_tools ''get_uniparc_by_accession'' = Some get_uniparc_by_accession_tool"
  by (simp_all add: setup_tools_def registrations_def register_tool_def)

lemmas validating_tool_defs =
  get_protein_summary_tool_def
  find_protein_accession_tool_def
  get_protein_by_accession_tool_def
  get_protein_interactions_tool_def
  get_protein_isoforms_tool_def
  get_features_by_accession_tool_def
  get_features_by_type_tool_def
  get_variations_by_accession_tool_def
  get_variations_by_dbsnp_tool_def
  get_antigen_by_accession_tool_def
  get_epitope_by_accession_tool_def
  get_proteomics_by_accession_tool_def
  get_proteome_by_upid_tool_def
  get_proteome_proteins_tool_def
  get_taxonomy_by_id_tool_def
  get_taxonomy_lineage_tool_def
  get_taxonomy_children_tool_def
  get_coordinates_by_accession_tool_def
  get_uniparc_by_upi_tool_def
  get_uniparc_by_accession_tool_def

text \<open>
  Every tool with a required argument other than \<open>query\<close> is registered, and its
  handler raises the validation error naming the argument when the argument is absent or
  falsy (empty string, \<open>None\<close>, 0, empty list or mapping), before any request.
\<close>

lemma required_argument_validated:
  assumes "t \<in> set get_tool_definitions" and "p \<in> set (required t)" and "p \<noteq> ''query''"
    and "arguments p = None \<or> (\<exists>v. arguments p = Some v \<and> \<not> truthy v)"
  shows "\<exists>h. setup_tools (name t) = Some h
             \<and> h srv b arguments s = (Inl (ValueError (p @ '' parameter is required'')), s)"
proof -
  have falsy: "\<not> truthy (arguments_get arguments p JNull)" "\<not> truthy (arguments_get arguments p (JStr []))"
    using assms(4) by (auto simp: arguments_get_def truthy_def)
  from assms(1-3) consider
      "name t = ''get_protein_summary''" "p = ''gene_name''"
    | "name t = ''find_protein_accession''" "p = ''gene_name''"
    | "name t = ''get_protein_by_accession''" "p = ''accession''"
    | "name t = ''get_protein_interactions''" "p = ''accession''"
    | "name t = ''get_protein_isoforms''" "p = ''accession''"
    | "name t = ''get_features_by_accession''" "p = ''accession''"
    | "name t = ''get_features_by_type''" "p = ''feature_type''"
    | "name t = ''get_variations_by_accession''" "p = ''accession''"
    | "name t = ''get_variations_by_dbsnp''" "p = ''dbid''"
    | "name t = ''get_antigen_by_accession''" "p = ''accession''"
    | "name t = ''get_epitope_by_accession''" "p = ''accession''"
    | "name t = ''get_proteomics_by_accession''" "p = ''accession''"
    | "name t = ''get_proteome_by_upid''" "p = ''upid''"
    | "name t = ''get_proteome_proteins''" "p = ''upid''"
    | "name t = ''get_taxonomy_by_id''" "p = ''tax_id''"
    | "name t = ''get_taxonomy_lineage''" "p = ''tax_id''"
    | "name t = ''get_taxonomy_children''" "p = ''tax_id''"
    | "name t = ''get_coordinates_by_accession''" "p = ''accession''"
    | "name t = ''get_uniparc_by_upi''" "p = ''upi''"
    | "name t = ''get_uniparc_by_accession''" "p = ''accession''"
    by (auto simp: get_tool_definitions_def)
  then show ?thesis
    using falsy by cases (simp_all add: setup_tools_lookup validating_tool_defs)
qed

lemma get_protein_by_accession_required:
  "global_tool_handler setup_tools srv b ''get_protein_by_accession'' Map.empty s =
     (Inr [TextContent ''text'' ''Error: accession parameter is required''], s)"
  by (simp add: global_tool_handler_def global_tool_handler_try_def setup_tools_lookup
        get_protein_by_accession_tool_no_arguments)

lemma search_tools_require_query:
  "map (\<lambda>t. (name t, required t)) (filter (\<lambda>t. ''query'' \<in> set (required t)) get_tool_definitions) =
     [(''search_proteins'', [''query'']), (''search_features'', [''query'']),
      (''search_variations'', [''query'']), (''search_antigens'', [''query'']),
      (''search_epitopes'', [''query'']), (''search_proteomics'', [''query'']),
      (''search_proteomes'', [''query'']), (''search_coordinates'', [''query'']),
      (''search_uniparc'', [''query''])]"
  by (simp add: get_tool_definitions_def)

lemma build_url_search_no_query:
  "build_url EMBLEBIBridge ''proteins'' (Some [(''offset'', JInt 0), (''size'', JInt 20), (''protein'', JStr [])]) =
     ''https://www.ebi.ac.uk/proteins/api/proteins?offset=0&size=20&protein=''"
  by code_simp

text \<open>
  C6. The schema of \<open>search_proteins\<close> marks \<open>query\<close> as required, but its
  handler does not check it: called through dispatch with an empty arguments mapping it
  searches for the empty protein name and returns the payload, where the claim has
  \<open>Error: query parameter is required\<close>. The other eight \<open>search_*\<close> handlers are
  written the same way.
\<close>

theorem search_proteins_tool_missing_query:
  "name (get_tool_definitions ! 2) = ''search_proteins''
   \<and> required (get_tool_definitions ! 2) = [''query'']
   \<and> global_tool_handler setup_tools (const_server (json_response (JList []))) EMBLEBIBridge
       ''search_proteins'' Map.empty io0 =
     (Inr [TextContent ''text'' ''[]''],
      \<lparr>requests = [''https://www.ebi.ac.uk/proteins/api/proteins?offset=0&size=20&protein=''],
         sleeps = []\<rparr>)"
proof -
  let ?srv = "const_server (json_response (JList []))"
  let ?params = "Some [(''offset'', JInt 0), (''size'', JInt 20), (''protein'', JStr [])]"
  have "make_request ?srv EMBLEBIBridge ''proteins'' ?params io0 =
          (Inr (JList []), io0\<lparr>requests := requests io0 @ [build_url EMBLEBIBridge ''proteins'' ?params]\<rparr>)"
    by (rule make_request_first_200[where r = "json_response (JList [])"])
       (simp_all add: const_server_def)
  then have "search_proteins_tool ?srv EMBLEBIBridge Map.empty io0 =
          (Inr [TextContent ''text'' ''[]''],
           io0\<lparr>requests := [''https://www.ebi.ac.uk/proteins/api/proteins?offset=0&size=20&protein='']\<rparr>)"
    by (simp add: search_proteins_tool_def search_proteins_def arguments_get_def build_url_search_no_query)
  then have "global_tool_handler setup_tools ?srv EMBLEBIBridge ''search_proteins'' Map.empty io0 =
          (Inr [TextContent ''text'' ''[]''],
           io0\<lparr>requests := [''https://www.ebi.ac.uk/proteins/api/proteins?offset=0&size=20&protein='']\<rparr>)"
    by (simp add: global_tool_handler_def global_tool_handler_try_def setup_tools_lookup)
  moreover have "name (get_tool_definitions ! 2) = ''search_proteins''"
      "required (get_tool_definitions ! 2) = [''query'']"
    by (simp_all add: get_tool_definitions_def numeral_2_eq_2)
  ultimately show ?thesis
    by (simp add: io0_def)
qed

end
